theory Spec2Isabelle
  imports Complex_Main "HOL-Library.Word"
begin

section \<open>Skeletal animation of a model (src/exengine/model.c)\<close>

text \<open>
  A shallow embedding of the animation code of \<^verbatim>\<open>model.c\<close>: \<^verbatim>\<open>model_update\<close>,
  \<^verbatim>\<open>model_update_matrices\<close>, \<^verbatim>\<open>model_set_pose\<close>, \<^verbatim>\<open>model_set_anim\<close>,
  \<^verbatim>\<open>calc_bone_matrix\<close> and \<^verbatim>\<open>mix_pose\<close>.

  Conventions of the embedding.
  \<^item> A C \<^verbatim>\<open>float\<close> is the \<^typ>\<open>real\<close> number it denotes, and every float
    operation of \<^verbatim>\<open>model.c\<close> (product, sum, difference, quotient, conversion from
    \<^verbatim>\<open>uint32_t\<close>) is the exact result rounded to IEEE 754 single precision, to
    nearest with ties to even. Infinities and NaN are not represented: a result beyond
    the largest float is rounded like any other, and a quotient by zero is 0. The
    conversion of a \<^verbatim>\<open>float\<close> to \<^verbatim>\<open>uint32_t\<close> truncates towards zero and is
    undefined in C when the truncated value does not fit; that case is an error value
    here.
  \<^item> \<^verbatim>\<open>uint32_t\<close> is \<^typ>\<open>32 word\<close>: \<open>+\<close> wraps, \<open>\<le>\<close> and \<open><\<close> compare unsigned.
  \<^item> An array and its length field are one HOL list (\<^verbatim>\<open>bones\<close>/\<^verbatim>\<open>bones_len\<close>,
    \<^verbatim>\<open>anims\<close>/\<^verbatim>\<open>anims_len\<close>, \<^verbatim>\<open>frames\<close>/\<^verbatim>\<open>frames_len\<close>); every other array is a
    list of its own, and an access beyond its end (undefined in C) is an error value.
  \<^item> Every function that mutates the model takes the model and returns the new one,
    or an error.
  \<^item> The vector, quaternion and matrix primitives the file calls (\<^verbatim>\<open>vec3_lerp\<close>,
    \<^verbatim>\<open>quat_slerp\<close>, \<^verbatim>\<open>quat_norm\<close>, \<^verbatim>\<open>mat4x4_*\<close>) are not part of the file; the
    embedding takes them as a parameter, a record of functions over arbitrary carrier
    types \<open>'v\<close> (vec3), \<open>'q\<close> (quat) and \<open>'mx\<close> (mat4x4).
\<close>

subsection \<open>Data\<close>

type_synonym float = real
type_synonym uint32_t = "32 word"

datatype error =
    Float_conversion_undefined  \<comment> \<open>float to uint32_t, value out of range\<close>
  | Index_out_of_bounds         \<comment> \<open>array access beyond the end of the array\<close>
  | Uninitialised_read          \<comment> \<open>read of a local array element never written\<close>

text \<open>The math library the file is compiled against, as a parameter. Each function
  returns the value the C function stores through its first (output) argument.\<close>

record ('v, 'q, 'mx) mathlib =
  vec3_lerp :: "'v \<Rightarrow> 'v \<Rightarrow> float \<Rightarrow> 'v"
  quat_slerp :: "'q \<Rightarrow> 'q \<Rightarrow> float \<Rightarrow> 'q"
  quat_norm :: "'q \<Rightarrow> 'q"
  mat4x4_identity :: "'mx"
  mat4x4_mul :: "'mx \<Rightarrow> 'mx \<Rightarrow> 'mx"
  mat4x4_scale_xyz :: "'v \<Rightarrow> 'mx"
  mat4x4_rotate_quat :: "'q \<Rightarrow> 'mx"
  mat4x4_translate :: "'v \<Rightarrow> 'mx"

text \<open>
  Modelled from the spec: the header \<^verbatim>\<open>model.h\<close>, which declares \<^verbatim>\<open>pose_t\<close>,
  \<^verbatim>\<open>frame_t\<close>, \<^verbatim>\<open>bone_t\<close>, \<^verbatim>\<open>anim_t\<close>, \<^verbatim>\<open>mesh_t\<close>, \<^verbatim>\<open>list_node_t\<close>,
  \<^verbatim>\<open>model_t\<close> and the macros \<^verbatim>\<open>MIN\<close> and \<^verbatim>\<open>MAX\<close>, is not among the sources.
  The records below have the fields \<^verbatim>\<open>model.c\<close> reads and writes, as the data model
  of the specification lists them, with the types their uses in \<^verbatim>\<open>model.c\<close> fix:
  frame numbers are \<^verbatim>\<open>uint32_t\<close> (they are added to and compared with locals
  declared \<^verbatim>\<open>uint32_t\<close>), times and rates are \<^verbatim>\<open>float\<close>, a bone's parent is a
  signed index compared with 0. \<^verbatim>\<open>MIN\<close> and \<^verbatim>\<open>MAX\<close> are the smaller and the larger
  of their two arguments.
\<close>

text \<open>\<^verbatim>\<open>pose_t\<close>; the field \<^verbatim>\<open>rotate\<close> is \<open>rotate_q\<close> here (\<open>rotate\<close> is a list
  function of HOL). A \<^verbatim>\<open>frame_t\<close> is an array of \<^verbatim>\<open>pose_t\<close>, one per bone.\<close>

record ('v, 'q) pose_t =
  translate :: 'v
  rotate_q :: 'q
  scale :: 'v

type_synonym ('v, 'q) frame_t = "('v, 'q) pose_t list"

text \<open>\<^verbatim>\<open>bone_t\<close>: only \<^verbatim>\<open>parent\<close> is read (negative for a root).\<close>

record bone_t =
  parent :: int

text \<open>\<^verbatim>\<open>anim_t\<close>; the field \<^verbatim>\<open>last\<close> is \<open>last_fr\<close> here (\<open>last\<close> is a list function
  of HOL).\<close>

record anim_t =
  first :: uint32_t
  last_fr :: uint32_t
  rate :: float
  loop :: bool

text \<open>\<^verbatim>\<open>mesh_t\<close>: the four fields \<^verbatim>\<open>model_update\<close> writes.\<close>

record 'v mesh_t =
  mesh_position :: 'v
  mesh_rotation :: 'v
  mesh_scale :: float
  mesh_is_lit :: bool

text \<open>\<^verbatim>\<open>list_node_t\<close>: a node with a data pointer (possibly NULL) and a next pointer
  (possibly NULL).\<close>

datatype 'a list_node_t = Node (data: "'a option") (next_node: "'a list_node_t option")

text \<open>\<^verbatim>\<open>model_t\<close>. \<open>current_anim\<close> is the pointer \<^verbatim>\<open>&m->anims[index]\<close>, kept as the
  index, \<open>None\<close> for NULL. The model's own \<^verbatim>\<open>scale\<close> is \<open>m_scale\<close>.\<close>

record ('v, 'q, 'mx) model_t =
  mesh_list :: "'v mesh_t list_node_t"
  position :: 'v
  rotation :: 'v
  m_scale :: float
  is_shadow :: bool
  is_lit :: bool
  bones :: "bone_t list"
  anims :: "anim_t list"
  frames :: "('v, 'q) frame_t list"
  pose :: "('v, 'q) frame_t"
  inverse_base :: "'mx list"
  skeleton :: "'mx list"
  current_anim :: "nat option"
  current_time :: float
  current_frame :: uint32_t

definition bones_len :: "('v, 'q, 'mx) model_t \<Rightarrow> nat" where
  "bones_len m = length (bones m)"

definition anims_len :: "('v, 'q, 'mx) model_t \<Rightarrow> nat" where
  "anims_len m = length (anims m)"

definition frames_len :: "('v, 'q, 'mx) model_t \<Rightarrow> nat" where
  "frames_len m = length (frames m)"

subsection \<open>Errors, loops and conversions\<close>

definition and_then :: "error + 'a \<Rightarrow> ('a \<Rightarrow> error + 'b) \<Rightarrow> error + 'b" where
  "and_then r f = (case r of Inl e \<Rightarrow> Inl e | Inr x \<Rightarrow> f x)"

text \<open>\<^verbatim>\<open>for (int i = 0; i < n; i++) body\<close> is \<open>for_each [0..<n] body\<close>: the body runs
  for each index in order and the loop stops at the first error.\<close>

fun for_each :: "nat list \<Rightarrow> (nat \<Rightarrow> 's \<Rightarrow> error + 's) \<Rightarrow> 's \<Rightarrow> error + 's" where
  "for_each [] body s = Inr s"
| "for_each (i # is) body s = and_then (body i s) (for_each is body)"

text \<open>C's conversion of a float to \<^verbatim>\<open>uint32_t\<close>: the fraction is discarded; the
  behaviour is undefined unless the result is in \<open>0 .. 2^32 - 1\<close>.\<close>

definition float_to_uint32 :: "float \<Rightarrow> error + uint32_t" where
  "float_to_uint32 x =
     (let t = (if 0 \<le> x then \<lfloor>x\<rfloor> else \<lceil>x\<rceil>)
      in if 0 \<le> t \<and> t < 2 ^ 32 then Inr (word_of_int t) else Inl Float_conversion_undefined)"

text \<open>Rounding to an integer, to nearest with ties to even.\<close>

definition round_half_even :: "real \<Rightarrow> int" where
  "round_half_even y =
     (let f = \<lfloor>y\<rfloor>
      in if y - of_int f < 1 / 2 then f
         else if 1 / 2 < y - of_int f then f + 1
         else if even f then f else f + 1)"

text \<open>Rounding to single precision: a significand of 24 bits, so for \<open>2^k \<le> |x| < 2^(k+1)\<close>
  the result is a multiple of \<open>2^(k-23)\<close>; the smallest spacing is \<open>2^(-149)\<close>, that of
  the subnormal numbers.\<close>

definition float32_round :: "real \<Rightarrow> float" where
  "float32_round x =
     (if x = 0 then 0
      else let e = max (- 149) (\<lfloor>log 2 \<bar>x\<bar>\<rfloor> - 23)
           in of_int (round_half_even (x * 2 powi (- e))) * 2 powi e)"

text \<open>The float operations of \<^verbatim>\<open>model.c\<close>: \<^verbatim>\<open>a * b\<close>, \<^verbatim>\<open>a + b\<close>, \<^verbatim>\<open>a - b\<close>,
  \<^verbatim>\<open>a / b\<close> on floats, and the conversion of a \<^verbatim>\<open>uint32_t\<close> operand of a float
  operation.\<close>

definition fmul :: "float \<Rightarrow> float \<Rightarrow> float" where
  "fmul a b = float32_round (a * b)"

definition fadd :: "float \<Rightarrow> float \<Rightarrow> float" where
  "fadd a b = float32_round (a + b)"

definition fsub :: "float \<Rightarrow> float \<Rightarrow> float" where
  "fsub a b = float32_round (a - b)"

definition fdiv :: "float \<Rightarrow> float \<Rightarrow> float" where
  "fdiv a b = float32_round (a / b)"

definition uint32_to_float :: "uint32_t \<Rightarrow> float" where
  "uint32_to_float w = float32_round (of_nat (unat w))"

subsection \<open>model\_set\_anim\<close>

text \<open>
  \<^verbatim>\<open>
  void model_set_anim(model_t *m, size_t index)
  {
    if (index > m->anims_len) {
      m->current_anim = NULL;
      return;
    }
    m->current_anim  = &m->anims[index];
    m->current_time  = 0;
    m->current_frame = m->current_anim->first;
  }
  \<close>
  The last line reads \<^verbatim>\<open>m->anims[index]\<close>, which is beyond the array when
  \<open>index = anims_len\<close>.
\<close>

definition model_set_anim ::
  "('v, 'q, 'mx) model_t \<Rightarrow> nat \<Rightarrow> error + ('v, 'q, 'mx) model_t" where
  "model_set_anim m index =
     (if index > anims_len m then Inr (m\<lparr>current_anim := None\<rparr>)
      else
        let m = m\<lparr>current_anim := Some index\<rparr>;
            m = m\<lparr>current_time := 0\<rparr>
        in if index < length (anims m)
           then Inr (m\<lparr>current_frame := first (anims m ! index)\<rparr>)
           else Inl Index_out_of_bounds)"

subsection \<open>mix\_pose and model\_set\_pose\<close>

text \<open>
  \<^verbatim>\<open>
  void mix_pose(model_t *m, frame_t a, frame_t b, float weight)
  {
    weight = MIN(MAX(weight, 0.0f), 1.0f);
    for (int i=0; i<m->bones_len; i++) {
      vec3 t;
      vec3_lerp(t, a[i].translate, b[i].translate, weight);
      quat r;
      quat_slerp(r, a[i].rotate, b[i].rotate, weight);
      quat_norm(r, r);
      vec3 s;
      vec3_lerp(s, a[i].scale, b[i].scale, weight);
      memcpy(m->pose[i].translate,  t, sizeof(vec3));
      memcpy(m->pose[i].rotate,     r, sizeof(quat));
      memcpy(m->pose[i].scale,      s, sizeof(vec3));
    }
  }
  \<close>
  The loop state is the pose buffer. Iteration \<open>i\<close> reads \<^verbatim>\<open>a[i]\<close> and \<^verbatim>\<open>b[i]\<close>
  before it writes \<^verbatim>\<open>m->pose[i]\<close> and touches no other index, so the result is the
  same whether or not \<^verbatim>\<open>a\<close> or \<^verbatim>\<open>b\<close> is the pose buffer itself.
\<close>

definition mix_pose_body ::
  "('v, 'q, 'mx) mathlib \<Rightarrow> ('v, 'q) frame_t \<Rightarrow> ('v, 'q) frame_t \<Rightarrow> float \<Rightarrow>
   nat \<Rightarrow> ('v, 'q) frame_t \<Rightarrow> error + ('v, 'q) frame_t" where
  "mix_pose_body ml a b weight i p =
     (if i < length a \<and> i < length b \<and> i < length p then
        let t = vec3_lerp ml (translate (a ! i)) (translate (b ! i)) weight;
            r = quat_slerp ml (rotate_q (a ! i)) (rotate_q (b ! i)) weight;
            r = quat_norm ml r;
            s = vec3_lerp ml (scale (a ! i)) (scale (b ! i)) weight
        in Inr (p[i := (p ! i)\<lparr>translate := t, rotate_q := r, scale := s\<rparr>])
      else Inl Index_out_of_bounds)"

definition mix_pose ::
  "('v, 'q, 'mx) mathlib \<Rightarrow> ('v, 'q, 'mx) model_t \<Rightarrow> ('v, 'q) frame_t \<Rightarrow>
   ('v, 'q) frame_t \<Rightarrow> float \<Rightarrow> error + ('v, 'q, 'mx) model_t" where
  "mix_pose ml m a b weight =
     (let weight = min (max weight 0) 1
      in and_then (for_each [0..<bones_len m] (mix_pose_body ml a b weight) (pose m))
           (\<lambda>p. Inr (m\<lparr>pose := p\<rparr>)))"



subsection \<open>calc\_bone\_matrix and model\_update\_matrices\<close>

text \<open>
  \<^verbatim>\<open>
  void calc_bone_matrix(mat4x4 m, vec3 pos, quat rot, vec3 scale)
  {
    mat4x4 mat;
    mat4x4_identity(m);
    mat4x4_scale_xyz(mat, scale);
    mat4x4_mul(m, m, mat);
    mat4x4_rotate_quat(mat, rot);
    mat4x4_mul(m, m, mat);
    mat4x4_translate(mat, pos);
    mat4x4_mul(m, m, mat);
  }
  \<close>
\<close>

definition calc_bone_matrix :: "('v, 'q, 'mx) mathlib \<Rightarrow> 'v \<Rightarrow> 'q \<Rightarrow> 'v \<Rightarrow> 'mx" where
  "calc_bone_matrix ml pos rot scl =
     (let m = mat4x4_identity ml;
          mat = mat4x4_scale_xyz ml scl;
          m = mat4x4_mul ml m mat;
          mat = mat4x4_rotate_quat ml rot;
          m = mat4x4_mul ml m mat;
          mat = mat4x4_translate ml pos;
          m = mat4x4_mul ml m mat
      in m)"

text \<open>
  \<^verbatim>\<open>
  void model_update_matrices(model_t *m)
  {
    mat4x4 transform[m->bones_len];
    frame_t pose = m->pose;
    for (int i=0; i<m->bones_len; i++) {
      bone_t b = m->bones[i];
      mat4x4 mat, result;
      calc_bone_matrix(mat, pose[i].translate, pose[i].rotate, pose[i].scale);
      mat4x4_identity(result);
      if (b.parent >= 0) {
        mat4x4_mul(transform[i], mat, transform[b.parent]);
        mat4x4_mul(result, m->inverse_base[i], transform[i]);
      } else {
        mat4x4_dup(transform[i], mat);
        mat4x4_mul(result, m->inverse_base[i], mat);
      }
      mat4x4_dup(m->skeleton[i], result);
    }
  }
  \<close>
  The loop state is the local array \<^verbatim>\<open>transform\<close>, whose elements start
  uninitialised (\<open>None\<close>), and the array \<^verbatim>\<open>m->skeleton\<close>. The identity stored in
  \<^verbatim>\<open>result\<close> is overwritten on both branches.
\<close>

definition model_update_matrices_body ::
  "('v, 'q, 'mx) mathlib \<Rightarrow> ('v, 'q, 'mx) model_t \<Rightarrow>
   nat \<Rightarrow> 'mx option list \<times> 'mx list \<Rightarrow> error + 'mx option list \<times> 'mx list" where
  "model_update_matrices_body ml m i s =
     (case s of (transform, skel) \<Rightarrow>
        if i < length (bones m) \<and> i < length (pose m) \<and> i < length (inverse_base m)
           \<and> i < length transform \<and> i < length skel
        then
          let b = bones m ! i;
              mat = calc_bone_matrix ml (translate (pose m ! i)) (rotate_q (pose m ! i))
                      (scale (pose m ! i))
          in if parent b \<ge> 0 then
               (if nat (parent b) < length transform then
                  (case transform ! nat (parent b) of
                     None \<Rightarrow> Inl Uninitialised_read
                   | Some tp \<Rightarrow>
                       let ti = mat4x4_mul ml mat tp;
                           result = mat4x4_mul ml (inverse_base m ! i) ti
                       in Inr (transform[i := Some ti], skel[i := result]))
                else Inl Index_out_of_bounds)
             else
               let result = mat4x4_mul ml (inverse_base m ! i) mat
               in Inr (transform[i := Some mat], skel[i := result])
        else Inl Index_out_of_bounds)"

definition model_update_matrices ::
  "('v, 'q, 'mx) mathlib \<Rightarrow> ('v, 'q, 'mx) model_t \<Rightarrow> error + ('v, 'q, 'mx) model_t" where
  "model_update_matrices ml m =
     and_then (for_each [0..<bones_len m] (model_update_matrices_body ml m)
                 (replicate (bones_len m) None, skeleton m))
       (\<lambda>s. Inr (m\<lparr>skeleton := snd s\<rparr>))"

subsection \<open>model\_update\<close>

text \<open>
  The first loop of \<^verbatim>\<open>model_update\<close> walks the mesh list from its head and copies
  the model's transform into each mesh, until a node without data or without a
  successor:
  \<^verbatim>\<open>
  list_node_t *n = m->mesh_list;
  while (n->data != NULL) {
    mesh_t *mesh = n->data;
    memcpy(mesh->position, m->position, sizeof(vec3));
    memcpy(mesh->rotation, m->rotation, sizeof(vec3));
    mesh->scale  = m->scale;
    mesh->is_lit = m->is_lit;
    if (n->next != NULL) n = n->next; else break;
  }
  \<close>
\<close>

fun update_meshes ::
  "('v, 'q, 'mx) model_t \<Rightarrow> 'v mesh_t list_node_t \<Rightarrow> 'v mesh_t list_node_t" where
  "update_meshes m (Node None nx) = Node None nx"
| "update_meshes m (Node (Some mesh) nx) =
     Node (Some (mesh\<lparr>mesh_position := position m, mesh_rotation := rotation m,
                      mesh_scale := m_scale m, mesh_is_lit := is_lit m\<rparr>))
          (case nx of None \<Rightarrow> None | Some n \<Rightarrow> Some (update_meshes m n))"

text \<open>\<^verbatim>\<open>m->frames[k]\<close> for a signed index \<open>k\<close>.\<close>

definition frame_at ::
  "('v, 'q, 'mx) model_t \<Rightarrow> int \<Rightarrow> error + ('v, 'q) frame_t" where
  "frame_at m k =
     (if 0 \<le> k \<and> nat k < frames_len m then Inr (frames m ! nat k)
      else Inl Index_out_of_bounds)"

text \<open>\<^verbatim>\<open>*m->current_anim\<close>.\<close>

definition anim_at :: "('v, 'q, 'mx) model_t \<Rightarrow> nat \<Rightarrow> error + anim_t" where
  "anim_at m k = (if k < anims_len m then Inr (anims m ! k) else Inl Index_out_of_bounds)"

text \<open>
  The animation part of \<^verbatim>\<open>model_update\<close>:
  \<^verbatim>\<open>
  anim_t *anim = m->current_anim;
  if (anim == NULL)
    return;
  uint32_t current_frame = m->current_time * anim->rate;
  uint32_t len = anim->last + anim->first;
  float position = m->current_time * anim->rate;
  if (current_frame > len && !anim->loop)
    return;
  m->current_time += delta_time;
  m->current_frame = anim->first + current_frame;
  int next_frame = m->current_frame+1;
  if (m->current_frame >= len) {
    if (anim->loop) {
      m->current_time -= len / anim->rate;
      m->current_time  = 0;
      m->current_frame = anim->first + m->current_time * anim->rate;
    } else {
      m->current_frame = anim->last;
    }
  }
  if (next_frame >= len) {
    next_frame = anim->first;
  }
  mix_pose(m, m->frames[m->current_frame], m->frames[next_frame],
           position - (float)floor(position));
  model_update_matrices(m);
  \<close>
  The local \<^verbatim>\<open>current_frame\<close> is \<open>cur_frame\<close> here (\<open>current_frame\<close> is the field).
  \<^verbatim>\<open>next_frame\<close> is an \<^verbatim>\<open>int\<close>: it holds the bits of the \<^verbatim>\<open>uint32_t\<close> sum, is
  compared with \<^verbatim>\<open>len\<close> as unsigned, and indexes \<^verbatim>\<open>m->frames\<close> as signed.
  \<^verbatim>\<open>floor\<close> is exact: the integer part of a float is a float.
\<close>

definition model_update ::
  "('v, 'q, 'mx) mathlib \<Rightarrow> ('v, 'q, 'mx) model_t \<Rightarrow> float \<Rightarrow>
   error + ('v, 'q, 'mx) model_t" where
  "model_update ml m delta_time =
     (let m = m\<lparr>mesh_list := update_meshes m (mesh_list m)\<rparr> in
      case current_anim m of
        None \<Rightarrow> Inr m
      | Some k \<Rightarrow>
          and_then (anim_at m k) (\<lambda>anim.
          and_then (float_to_uint32 (fmul (current_time m) (rate anim))) (\<lambda>cur_frame.
            let len = last_fr anim + first anim;
                position = fmul (current_time m) (rate anim)
            in if cur_frame > len \<and> \<not> loop anim then Inr m
               else
                 let m = m\<lparr>current_time := fadd (current_time m) delta_time\<rparr>;
                     m = m\<lparr>current_frame := first anim + cur_frame\<rparr>;
                     next_frame = current_frame m + 1
                 in and_then
                      (if current_frame m \<ge> len then
                         (if loop anim then
                            let m = m\<lparr>current_time :=
                                       fsub (current_time m)
                                         (fdiv (uint32_to_float len) (rate anim))\<rparr>;
                                m = m\<lparr>current_time := 0\<rparr>
                            in and_then
                                 (float_to_uint32
                                    (fadd (uint32_to_float (first anim))
                                       (fmul (current_time m) (rate anim))))
                                 (\<lambda>f. Inr (m\<lparr>current_frame := f\<rparr>))
                          else Inr (m\<lparr>current_frame := last_fr anim\<rparr>))
                       else Inr m)
                      (\<lambda>m.
                         let next_frame = (if next_frame \<ge> len then first anim else next_frame)
                         in and_then (frame_at m (uint (current_frame m))) (\<lambda>a.
                            and_then (frame_at m (sint next_frame)) (\<lambda>b.
                            and_then (mix_pose ml m a b (fsub position (of_int \<lfloor>position\<rfloor>)))
                              (model_update_matrices ml)))))))"

subsection \<open>The skeleton the composer is specified to compute\<close>

text \<open>
  The world transform of a bone as the specification words it: the local matrix of
  the bone's pose entry, composed with the world transform of its parent when it has
  one that was computed before it (a parent index below its own), the local matrix
  alone otherwise.
\<close>

function bone_world ::
  "('v, 'q, 'mx) mathlib \<Rightarrow> bone_t list \<Rightarrow> ('v, 'q) frame_t \<Rightarrow> nat \<Rightarrow> 'mx" where
  "bone_world ml bs p i =
     (if 0 \<le> parent (bs ! i) \<and> nat (parent (bs ! i)) < i
      then mat4x4_mul ml
             (calc_bone_matrix ml (translate (p ! i)) (rotate_q (p ! i)) (scale (p ! i)))
             (bone_world ml bs p (nat (parent (bs ! i))))
      else calc_bone_matrix ml (translate (p ! i)) (rotate_q (p ! i)) (scale (p ! i)))"
  by pat_completeness auto
termination
  by (relation "measure (\<lambda>(ml, bs, p, i). i)") auto

declare bone_world.simps [simp del]

text \<open>Bones are stored ancestor-first: every parent index is below the bone's own.\<close>

definition ancestor_first :: "bone_t list \<Rightarrow> bool" where
  "ancestor_first bs = list_all (\<lambda>i. parent (bs ! i) < int i) [0..<length bs]"

subsection \<open>A reference math library\<close>

text \<open>
  Modelled from the spec: the math library (\<^verbatim>\<open>vec3_lerp\<close>, \<^verbatim>\<open>quat_slerp\<close>,
  \<^verbatim>\<open>quat_norm\<close> and the \<^verbatim>\<open>mat4x4\<close> functions) is not among the sources. The
  specification asks for component-wise linear interpolation of vectors, spherical
  interpolation of quaternions with a fall back to linear interpolation on degenerate
  input, and renormalisation. The definitions below are these over the reals. Matrices
  are not computed: a matrix is the expression of the calls that build it.
\<close>

type_synonym vec3 = "real \<times> real \<times> real"
type_synonym quat = "real \<times> real \<times> real \<times> real"

datatype mat_expr =
    Identity
  | Given nat
  | Scale_xyz vec3
  | Rotate_quat quat
  | Translate vec3
  | Mul mat_expr mat_expr

definition lerp :: "real \<Rightarrow> real \<Rightarrow> real \<Rightarrow> real" where
  "lerp x y t = x + t * (y - x)"

fun ref_vec3_lerp :: "vec3 \<Rightarrow> vec3 \<Rightarrow> real \<Rightarrow> vec3" where
  "ref_vec3_lerp (a0, a1, a2) (b0, b1, b2) t = (lerp a0 b0 t, lerp a1 b1 t, lerp a2 b2 t)"

fun quat_dot :: "quat \<Rightarrow> quat \<Rightarrow> real" where
  "quat_dot (a0, a1, a2, a3) (b0, b1, b2, b3) = a0 * b0 + a1 * b1 + a2 * b2 + a3 * b3"

definition quat_len :: "quat \<Rightarrow> real" where
  "quat_len q = sqrt (quat_dot q q)"

fun quat_scale :: "real \<Rightarrow> quat \<Rightarrow> quat" where
  "quat_scale k (a0, a1, a2, a3) = (k * a0, k * a1, k * a2, k * a3)"

fun quat_add :: "quat \<Rightarrow> quat \<Rightarrow> quat" where
  "quat_add (a0, a1, a2, a3) (b0, b1, b2, b3) = (a0 + b0, a1 + b1, a2 + b2, a3 + b3)"

definition ref_quat_norm :: "quat \<Rightarrow> quat" where
  "ref_quat_norm q = quat_scale (1 / quat_len q) q"

definition ref_quat_slerp :: "quat \<Rightarrow> quat \<Rightarrow> real \<Rightarrow> quat" where
  "ref_quat_slerp a b t =
     (let d = quat_dot a b
      in if 1 \<le> \<bar>d\<bar> then quat_add a (quat_scale t (quat_add b (quat_scale (- 1) a)))
         else quat_add (quat_scale (sin ((1 - t) * arccos d) / sin (arccos d)) a)
                       (quat_scale (sin (t * arccos d) / sin (arccos d)) b))"

definition ref_mathlib :: "(vec3, quat, mat_expr) mathlib" where
  "ref_mathlib =
     \<lparr> vec3_lerp = ref_vec3_lerp,
       quat_slerp = ref_quat_slerp,
       quat_norm = ref_quat_norm,
       mat4x4_identity = Identity,
       mat4x4_mul = Mul,
       mat4x4_scale_xyz = Scale_xyz,
       mat4x4_rotate_quat = Rotate_quat,
       mat4x4_translate = Translate \<rparr>"

subsection \<open>A small model\<close>

text \<open>
  Two bones (a root and its child), sixteen frames that alternate between two poses,
  and two clips: a looping clip over frames 0 to 3 and a non-looping clip over frames
  5 to 10, both at one frame per second. The model has one mesh, \<open>mesh0\<close>, whose
  transform differs from the model's; \<open>mesh1\<close> is that mesh with the model's transform.
\<close>

definition pose_a :: "(vec3, quat) pose_t" where
  "pose_a = \<lparr> translate = (0, 0, 0), rotate_q = (0, 0, 0, 1), scale = (1, 1, 1) \<rparr>"

definition pose_b :: "(vec3, quat) pose_t" where
  "pose_b = \<lparr> translate = (2, 4, 6), rotate_q = (0, 0, 0, 1), scale = (3, 3, 3) \<rparr>"

definition frame_a :: "(vec3, quat) frame_t" where
  "frame_a = [pose_a, pose_a]"

definition frame_b :: "(vec3, quat) frame_t" where
  "frame_b = [pose_b, pose_a]"

definition clip_loop :: anim_t where
  "clip_loop = \<lparr> first = 0, last_fr = 3, rate = 1, loop = True \<rparr>"

definition clip_once :: anim_t where
  "clip_once = \<lparr> first = 5, last_fr = 10, rate = 1, loop = False \<rparr>"

definition mesh0 :: "vec3 mesh_t" where
  "mesh0 = \<lparr> mesh_position = (1, 2, 3), mesh_rotation = (0, 0, 0), mesh_scale = 2,
             mesh_is_lit = False \<rparr>"

definition mesh1 :: "vec3 mesh_t" where
  "mesh1 = \<lparr> mesh_position = (0, 0, 0), mesh_rotation = (0, 0, 0), mesh_scale = 1,
             mesh_is_lit = True \<rparr>"

definition model0 :: "(vec3, quat, mat_expr) model_t" where
  "model0 =
     \<lparr> mesh_list = Node (Some mesh0) (Some (Node None None)),
       position = (0, 0, 0),
       rotation = (0, 0, 0),
       m_scale = 1,
       is_shadow = True,
       is_lit = True,
       bones = [\<lparr> parent = - 1 \<rparr>, \<lparr> parent = 0 \<rparr>],
       anims = [clip_loop, clip_once],
       frames = [frame_a, frame_b, frame_a, frame_b, frame_a, frame_b, frame_a, frame_b,
                 frame_a, frame_b, frame_a, frame_b, frame_a, frame_b, frame_a, frame_b],
       pose = frame_a,
       inverse_base = [Given 0, Given 1],
       skeleton = [Identity, Identity],
       current_anim = None,
       current_time = 0,
       current_frame = 0 \<rparr>"

subsection \<open>The pose the blender is specified to write\<close>

text \<open>
  One entry of the blended pose: translation and scale interpolated linearly between
  the two entries, rotation interpolated spherically and then renormalised. The blend
  of two frames has one such entry per bone, at the weight clamped to \<open>[0, 1]\<close>.
\<close>

definition blend_entry ::
  "('v, 'q, 'mx) mathlib \<Rightarrow> ('v, 'q) pose_t \<Rightarrow> ('v, 'q) pose_t \<Rightarrow> float \<Rightarrow>
   ('v, 'q) pose_t" where
  "blend_entry ml x y w =
     \<lparr> translate = vec3_lerp ml (translate x) (translate y) w,
       rotate_q = quat_norm ml (quat_slerp ml (rotate_q x) (rotate_q y) w),
       scale = vec3_lerp ml (scale x) (scale y) w \<rparr>"

definition blend ::
  "('v, 'q, 'mx) mathlib \<Rightarrow> nat \<Rightarrow> ('v, 'q) frame_t \<Rightarrow> ('v, 'q) frame_t \<Rightarrow> float \<Rightarrow>
   ('v, 'q) frame_t" where
  "blend ml n a b weight =
     map (\<lambda>i. blend_entry ml (a ! i) (b ! i) (min (max weight 0) 1)) [0..<n]"




text \<open>The local matrix of \<open>pose_a\<close> in the reference library.\<close>

definition local_a :: mat_expr where
  "local_a = Mul (Mul (Mul Identity (Scale_xyz (1, 1, 1))) (Rotate_quat (0, 0, 0, 1)))
               (Translate (0, 0, 0))"

subsection \<open>The playback step as the specification words it\<close>

text \<open>
  One advance of the playback state machine for the active clip. The frame span is
  the sum of the clip's last and first frame. With the elapsed frame position
  \<open>current_time * rate\<close> (a float product) truncated to an integer: a non-looping clip
  whose position exceeds the span holds; otherwise the time advances, the current
  frame is the first frame plus the position and the next frame is the one after it; a
  current frame at or beyond the span wraps (time reset to zero, frame recomputed from
  it in float arithmetic) when the clip loops and is clamped to the last frame when it
  does not; a next frame at or beyond the span wraps to the first frame. The weight is
  the fraction of the position.
\<close>

datatype playback =
    Hold
  | Play float uint32_t uint32_t float
    \<comment> \<open>new current time, current frame, next frame, weight\<close>

definition frame_span :: "anim_t \<Rightarrow> uint32_t" where
  "frame_span clip = last_fr clip + first clip"

text \<open>The frame recomputed from the reset time 0: \<^verbatim>\<open>first + 0 * rate\<close> in float
  arithmetic, converted to \<^verbatim>\<open>uint32_t\<close>.\<close>

definition wrapped_frame :: "anim_t \<Rightarrow> error + uint32_t" where
  "wrapped_frame clip =
     float_to_uint32 (fadd (uint32_to_float (first clip)) (fmul 0 (rate clip)))"

definition advance :: "anim_t \<Rightarrow> float \<Rightarrow> float \<Rightarrow> error + playback" where
  "advance clip time delta_time =
     and_then (float_to_uint32 (fmul time (rate clip))) (\<lambda>elapsed.
       if elapsed > frame_span clip \<and> \<not> loop clip then Inr Hold
       else
         let cur = first clip + elapsed;
             nxt = cur + 1;
             nxt = (if nxt \<ge> frame_span clip then first clip else nxt);
             weight = fsub (fmul time (rate clip)) (of_int \<lfloor>fmul time (rate clip)\<rfloor>)
         in if cur \<ge> frame_span clip
            then (if loop clip
                  then and_then (wrapped_frame clip) (\<lambda>f. Inr (Play 0 f nxt weight))
                  else Inr (Play (fadd time delta_time) (last_fr clip) nxt weight))
            else Inr (Play (fadd time delta_time) cur nxt weight))"

text \<open>The small model while it plays clip \<open>k\<close>, at a given time and frame.\<close>

definition playing :: "nat \<Rightarrow> float \<Rightarrow> uint32_t \<Rightarrow> (vec3, quat, mat_expr) model_t" where
  "playing k t f = model0\<lparr>current_anim := Some k, current_time := t, current_frame := f\<rparr>"

text \<open>A model of 16777220 frames with one looping clip over frames 16777217 to
  16777219, playing at time 16777220.\<close>

definition clip_far :: anim_t where
  "clip_far = \<lparr> first = 16777217, last_fr = 16777219, rate = 1, loop = True \<rparr>"

definition model_far :: "(vec3, quat, mat_expr) model_t" where
  "model_far = model0\<lparr>anims := [clip_far], frames := replicate 16777220 frame_a,
                      current_anim := Some 0, current_time := 16777220,
                      current_frame := 16777219\<rparr>"

text \<open>The same frames with one non-looping clip over frames 0 to 16777216 at rate 673,
  playing at time 24929: the position \<open>24929 * 673\<close> is \<open>2^24 + 1\<close>.\<close>

definition clip_long :: anim_t where
  "clip_long = \<lparr> first = 0, last_fr = 16777216, rate = 673, loop = False \<rparr>"

definition model_long :: "(vec3, quat, mat_expr) model_t" where
  "model_long = model0\<lparr>anims := [clip_long], frames := replicate 16777220 frame_a,
                       current_anim := Some 0, current_time := 24929,
                       current_frame := 0\<rparr>"

section \<open>Loops\<close>

lemma and_then_Inr [simp]: "and_then (Inr x) f = f x"
  by (simp add: and_then_def)

lemma and_then_Inl [simp]: "and_then (Inl e) f = Inl e"
  by (simp add: and_then_def)

lemma for_each_append:
  "for_each (xs @ ys) body s = and_then (for_each xs body s) (for_each ys body)"
  by (induction xs arbitrary: s) (auto simp: and_then_def split: sum.splits)

text \<open>A loop whose body overwrites element \<open>i\<close> of an array from its old value.\<close>

lemma for_each_update_upto:
  assumes body: "\<And>i p. i < N \<Longrightarrow> N \<le> length p \<Longrightarrow> body i p = Inr (p[i := g i (p ! i)])"
    and len: "N \<le> length p"
  shows "n \<le> N \<Longrightarrow> for_each [0..<n] body p
         = Inr (map (\<lambda>j. if j < n then g j (p ! j) else p ! j) [0..<length p])"
proof (induction n)
  case 0
  then show ?case by (simp add: map_nth)
next
  case (Suc n)
  let ?r = "map (\<lambda>j. if j < n then g j (p ! j) else p ! j) [0..<length p]"
  have IH: "for_each [0..<n] body p = Inr ?r"
    using Suc by simp
  have step: "body n ?r = Inr (?r[n := g n (?r ! n)])"
    using Suc.prems len by (intro body) simp_all
  have "for_each [0..<Suc n] body p = Inr (?r[n := g n (?r ! n)])"
    by (simp add: for_each_append IH step)
  also have "?r[n := g n (?r ! n)]
             = map (\<lambda>j. if j < Suc n then g j (p ! j) else p ! j) [0..<length p]"
    using Suc.prems len by (auto intro!: nth_equalityI simp: nth_list_update less_Suc_eq)
  finally show ?case .
qed

lemma for_each_update:
  assumes "\<And>i p. i < n \<Longrightarrow> n \<le> length p \<Longrightarrow> body i p = Inr (p[i := g i (p ! i)])"
    and "n \<le> length p"
  shows "for_each [0..<n] body p
         = Inr (map (\<lambda>j. if j < n then g j (p ! j) else p ! j) [0..<length p])"
  using for_each_update_upto [OF assms order_refl] .

section \<open>Selecting a clip\<close>

text \<open>
  Claim C10. When \<^verbatim>\<open>model_set_anim\<close> rejects the index (\<open>index > anims_len\<close>), the
  call returns the model with \<open>current_anim\<close> cleared and every other field, in
  particular \<open>current_time\<close> and \<open>current_frame\<close>, as it was.
\<close>

theorem model_set_anim_rejected_keeps_playback:
  assumes "index > anims_len m"
  shows "model_set_anim m index = Inr (m\<lparr>current_anim := None\<rparr>)
         \<and> (\<exists>m'. model_set_anim m index = Inr m' \<and> current_anim m' = None
               \<and> current_time m' = current_time m \<and> current_frame m' = current_frame m)"
  using assms by (simp add: model_set_anim_def)

theorem model_set_anim_rejected_witness:
  "(3::nat) > anims_len (playing 0 7 9)
   \<and> current_anim (playing 0 7 9) = Some 0
   \<and> model_set_anim (playing 0 7 9) 3 = Inr ((playing 0 7 9)\<lparr>current_anim := None\<rparr>)
   \<and> current_time ((playing 0 7 9)\<lparr>current_anim := None\<rparr>) = 7
   \<and> current_frame ((playing 0 7 9)\<lparr>current_anim := None\<rparr>) = 9"
  using model_set_anim_rejected_keeps_playback [of "playing 0 7 9" 3]
  by (simp add: anims_len_def model0_def playing_def)

text \<open>
  Claim C2 does not hold of the code. The test of \<^verbatim>\<open>model_set_anim\<close> is
  \<^verbatim>\<open>index > m->anims_len\<close>, so the index \<open>anims_len\<close>, which addresses no clip, is
  not rejected: the call stores the address one past the array in \<^verbatim>\<open>current_anim\<close>
  and reads the clip's first frame through it, beyond the array. The model is not
  left without an active animation.
\<close>

theorem model_set_anim_accepts_anims_len:
  "model_set_anim m (anims_len m) = Inl Index_out_of_bounds
   \<and> model_set_anim m (anims_len m) \<noteq> Inr (m\<lparr>current_anim := None\<rparr>)"
  by (simp add: model_set_anim_def anims_len_def)

text \<open>An index above \<open>anims_len\<close> is rejected, and the next \<^verbatim>\<open>model_update\<close> copies the
  model's transform to the meshes and does nothing else.\<close>

lemma model_update_idle:
  "current_anim m = None
   \<Longrightarrow> model_update ml m delta_time = Inr (m\<lparr>mesh_list := update_meshes m (mesh_list m)\<rparr>)"
  by (simp add: model_update_def)

lemma model_set_anim_rejected_then_update:
  assumes "index > anims_len m"
  shows "and_then (model_set_anim m index) (\<lambda>m. model_update ml m delta_time)
         = Inr (m\<lparr>current_anim := None,
                  mesh_list := update_meshes (m\<lparr>current_anim := None\<rparr>) (mesh_list m)\<rparr>)"
  using assms by (simp add: model_set_anim_def model_update_idle)

section \<open>The pose blend\<close>

lemma pose_overwritten:
  fixes e :: "('v, 'q) pose_t"
  shows "e\<lparr>translate := t, rotate_q := r, scale := s\<rparr>
         = \<lparr> translate = t, rotate_q = r, scale = s \<rparr>"
  by (cases e) simp

lemma mix_pose_loop:
  fixes ml :: "('v, 'q, 'mx) mathlib" and a b p :: "('v, 'q) frame_t"
  assumes "n \<le> length a" "n \<le> length b" "n \<le> length p"
  shows "for_each [0..<n] (mix_pose_body ml a b w) p
         = Inr (map (\<lambda>j. if j < n then blend_entry ml (a ! j) (b ! j) w else p ! j)
                  [0..<length p])"
proof -
  have "for_each [0..<n] (mix_pose_body ml a b w) p
        = Inr (map (\<lambda>j. if j < n
                          then (\<lambda>i (e :: ('v, 'q) pose_t). blend_entry ml (a ! i) (b ! i) w)
                                 j (p ! j)
                          else p ! j)
                  [0..<length p])"
  proof (rule for_each_update)
    show "n \<le> length p" by fact
  next
    fix i and p' :: "('v, 'q) frame_t"
    assume "i < n" "n \<le> length p'"
    then show "mix_pose_body ml a b w i p' = Inr (p'[i := blend_entry ml (a ! i) (b ! i) w])"
      using assms by (simp add: mix_pose_body_def blend_entry_def pose_overwritten)
  qed
  then show ?thesis by simp
qed

lemma mix_pose_general:
  assumes "bones_len m \<le> length a" "bones_len m \<le> length b"
    and "bones_len m \<le> length (pose m)"
  shows "mix_pose ml m a b weight
         = Inr (m\<lparr>pose := map (\<lambda>j. if j < bones_len m
                                     then blend_entry ml (a ! j) (b ! j) (min (max weight 0) 1)
                                     else pose m ! j) [0..<length (pose m)]\<rparr>)"
  using assms by (simp add: mix_pose_def mix_pose_loop)

lemma mix_pose_blend:
  assumes "length (pose m) = bones_len m"
    and "bones_len m \<le> length a"
    and "bones_len m \<le> length b"
  shows "mix_pose ml m a b weight = Inr (m\<lparr>pose := blend ml (bones_len m) a b weight\<rparr>)"
  using assms by (simp add: mix_pose_general blend_def)

text \<open>
  Claim C7. For a pose buffer of one entry per bone and two frames that have an entry
  for every bone, \<^verbatim>\<open>mix_pose\<close> at any weight returns the model with the pose
  buffer replaced by the blend of the two frames at the weight clamped to \<open>[0, 1]\<close>:
  for every bone the translation and the scale are \<^verbatim>\<open>vec3_lerp\<close> of the two
  entries and the rotation is \<^verbatim>\<open>quat_norm\<close> of their \<^verbatim>\<open>quat_slerp\<close>. No other
  field of the model changes.
\<close>

theorem mix_pose_writes_blend:
  assumes "length (pose m) = bones_len m"
    and "bones_len m \<le> length a"
    and "bones_len m \<le> length b"
  shows "mix_pose ml m a b weight = Inr (m\<lparr>pose := blend ml (bones_len m) a b weight\<rparr>)
         \<and> length (blend ml (bones_len m) a b weight) = bones_len m
         \<and> (\<forall>i < bones_len m.
               blend ml (bones_len m) a b weight ! i
               = \<lparr> translate = vec3_lerp ml (translate (a ! i)) (translate (b ! i))
                                 (min (max weight 0) 1),
                   rotate_q = quat_norm ml (quat_slerp ml (rotate_q (a ! i)) (rotate_q (b ! i))
                                 (min (max weight 0) 1)),
                   scale = vec3_lerp ml (scale (a ! i)) (scale (b ! i))
                                 (min (max weight 0) 1) \<rparr>)"
  using assms by (simp add: mix_pose_general blend_def blend_entry_def)

theorem mix_pose_writes_blend_witness:
  "length (pose model0) = bones_len model0
   \<and> bones_len model0 \<le> length frame_a
   \<and> bones_len model0 \<le> length frame_b
   \<and> mix_pose ref_mathlib model0 frame_a frame_b (3 / 2)
       = Inr (model0\<lparr>pose := [pose_b, pose_a]\<rparr>)"
  using mix_pose_writes_blend [of model0 frame_a frame_b ref_mathlib "3 / 2"]
  by (simp add: model0_def bones_len_def frame_a_def frame_b_def blend_def blend_entry_def
        pose_a_def pose_b_def ref_mathlib_def lerp_def ref_quat_slerp_def ref_quat_norm_def
        quat_len_def upt_rec numeral_2_eq_2)

section \<open>The reference math library\<close>

lemma lerp_same [simp]: "lerp x x t = x"
  by (simp add: lerp_def)

lemma lerp_at_0 [simp]: "lerp x y 0 = x"
  by (simp add: lerp_def)

lemma lerp_at_1 [simp]: "lerp x y 1 = y"
  by (simp add: lerp_def)

lemma ref_vec3_lerp_same: "ref_vec3_lerp v v t = v"
  by (cases v) simp

lemma ref_vec3_lerp_0: "ref_vec3_lerp u v 0 = u"
  by (cases u; cases v) simp

lemma ref_vec3_lerp_1: "ref_vec3_lerp u v 1 = v"
  by (cases u; cases v) simp

lemma quat_dot_self_nonneg: "0 \<le> quat_dot q q"
  by (cases q) simp





lemma quat_scale_one [simp]: "quat_scale 1 q = q"
  by (cases q) simp

lemma ref_quat_norm_of_unit:
  assumes "quat_len q = 1"
  shows "ref_quat_norm q = q"
  using assms by (simp add: ref_quat_norm_def)

lemma ref_quat_slerp_same:
  assumes "quat_len q = 1"
  shows "ref_quat_slerp q q t = q"
proof -
  have "quat_dot q q = 1"
    using assms quat_dot_self_nonneg [of q] by (simp add: quat_len_def)
  moreover have "quat_add q (quat_scale t (quat_add q (quat_scale (- 1) q))) = q"
    by (cases q) simp
  ultimately show ?thesis
    by (simp add: ref_quat_slerp_def)
qed

text \<open>
  Claim C8. The pose buffer has one entry per bone and the frames \<open>A\<close> and \<open>B\<close> have
  an entry for every bone. If the library's linear interpolation of a vector with
  itself returns the vector, and its spherical interpolation of a unit quaternion with
  itself, renormalised, returns the quaternion (\<open>unit\<close> is the library's notion of unit
  length), then for a frame \<open>A\<close> of unit rotations, as keyframes have, and a weight in
  \<open>[0, 1]\<close>, blending \<open>A\<close> with itself writes exactly the poses of \<open>A\<close>. If linear
  interpolation at weight 0 returns its first end, blending any \<open>A\<close> and \<open>B\<close> at weight 0
  writes the translations and scales of \<open>A\<close>; if at weight 1 it returns its second end,
  blending at weight 1 writes those of \<open>B\<close>. The reference library satisfies the
  assumptions with \<open>unit q\<close> being \<open>quat_len q = 1\<close>.
\<close>

theorem mix_pose_identity_and_endpoints:
  fixes ml :: "('v, 'q, 'mx) mathlib" and A B :: "('v, 'q) frame_t"
  assumes lens: "length (pose m) = bones_len m" "bones_len m \<le> length A"
                "bones_len m \<le> length B"
  shows "((\<forall>v t. 0 \<le> t \<and> t \<le> 1 \<longrightarrow> vec3_lerp ml v v t = v)
          \<and> (\<forall>q t. unit q \<and> 0 \<le> t \<and> t \<le> 1 \<longrightarrow> quat_norm ml (quat_slerp ml q q t) = q)
          \<and> (\<forall>i < bones_len m. unit (rotate_q (A ! i)))
          \<and> 0 \<le> w \<and> w \<le> 1
          \<longrightarrow> mix_pose ml m A A w = Inr (m\<lparr>pose := take (bones_len m) A\<rparr>))
         \<and> ((\<forall>u v. vec3_lerp ml u v 0 = u)
            \<longrightarrow> (\<exists>m0. mix_pose ml m A B 0 = Inr m0
                   \<and> (\<forall>i < bones_len m. translate (pose m0 ! i) = translate (A ! i)
                                         \<and> scale (pose m0 ! i) = scale (A ! i))))
         \<and> ((\<forall>u v. vec3_lerp ml u v 1 = v)
            \<longrightarrow> (\<exists>m1. mix_pose ml m A B 1 = Inr m1
                   \<and> (\<forall>i < bones_len m. translate (pose m1 ! i) = translate (B ! i)
                                         \<and> scale (pose m1 ! i) = scale (B ! i))))"
proof (intro conjI impI)
  assume c: "(\<forall>v t. 0 \<le> t \<and> t \<le> 1 \<longrightarrow> vec3_lerp ml v v t = v)
          \<and> (\<forall>q t. unit q \<and> 0 \<le> t \<and> t \<le> 1 \<longrightarrow> quat_norm ml (quat_slerp ml q q t) = q)
          \<and> (\<forall>i < bones_len m. unit (rotate_q (A ! i)))
          \<and> 0 \<le> w \<and> w \<le> 1"
  then have w: "min (max w 0) 1 = w" by (simp add: min_def max_def)
  have "blend ml (bones_len m) A A w = take (bones_len m) A"
    using lens c by (auto intro!: nth_equalityI simp: blend_def blend_entry_def w)
  then show "mix_pose ml m A A w = Inr (m\<lparr>pose := take (bones_len m) A\<rparr>)"
    using lens by (simp add: mix_pose_blend)
next
  assume "\<forall>u v. vec3_lerp ml u v 0 = u"
  then have "\<forall>i < bones_len m.
               translate (blend ml (bones_len m) A B 0 ! i) = translate (A ! i)
             \<and> scale (blend ml (bones_len m) A B 0 ! i) = scale (A ! i)"
    by (simp add: blend_def blend_entry_def)
  then show "\<exists>m0. mix_pose ml m A B 0 = Inr m0
                \<and> (\<forall>i < bones_len m. translate (pose m0 ! i) = translate (A ! i)
                                      \<and> scale (pose m0 ! i) = scale (A ! i))"
    using lens by (simp add: mix_pose_blend)
next
  assume "\<forall>u v. vec3_lerp ml u v 1 = v"
  then have "\<forall>i < bones_len m.
               translate (blend ml (bones_len m) A B 1 ! i) = translate (B ! i)
             \<and> scale (blend ml (bones_len m) A B 1 ! i) = scale (B ! i)"
    by (simp add: blend_def blend_entry_def)
  then show "\<exists>m1. mix_pose ml m A B 1 = Inr m1
                \<and> (\<forall>i < bones_len m. translate (pose m1 ! i) = translate (B ! i)
                                      \<and> scale (pose m1 ! i) = scale (B ! i))"
    using lens by (simp add: mix_pose_blend)
qed

theorem mix_pose_identity_and_endpoints_witness:
  "mix_pose ref_mathlib model0 frame_b frame_b (1 / 2) = Inr (model0\<lparr>pose := frame_b\<rparr>)
   \<and> (\<exists>m0. mix_pose ref_mathlib model0 frame_b frame_a 0 = Inr m0
          \<and> map translate (pose m0) = map translate frame_b
          \<and> map scale (pose m0) = map scale frame_b)
   \<and> (\<exists>m1. mix_pose ref_mathlib model0 frame_b frame_a 1 = Inr m1
          \<and> map translate (pose m1) = map translate frame_a
          \<and> map scale (pose m1) = map scale frame_a)"
proof -
  have lens: "length (pose model0) = bones_len model0" "bones_len model0 \<le> length frame_b"
    "bones_len model0 \<le> length frame_a"
    by (simp_all add: model0_def bones_len_def frame_a_def frame_b_def)
  have two: "bones_len model0 = 2" "length frame_a = 2" "length frame_b = 2"
    by (simp_all add: model0_def bones_len_def frame_a_def frame_b_def)
  have same: "\<forall>v t. 0 \<le> t \<and> t \<le> 1 \<longrightarrow> vec3_lerp ref_mathlib v v t = v"
    by (simp add: ref_mathlib_def ref_vec3_lerp_same)
  have rot: "\<forall>q t. quat_len q = 1 \<and> 0 \<le> t \<and> t \<le> 1
               \<longrightarrow> quat_norm ref_mathlib (quat_slerp ref_mathlib q q t) = q"
    by (simp add: ref_mathlib_def ref_quat_slerp_same ref_quat_norm_of_unit)
  have unit: "\<forall>i < bones_len model0. quat_len (rotate_q (frame_b ! i)) = 1"
    by (auto simp: two frame_b_def pose_a_def pose_b_def quat_len_def less_Suc_eq
          numeral_2_eq_2)
  have at0: "\<forall>u v. vec3_lerp ref_mathlib u v 0 = u"
    by (simp add: ref_mathlib_def ref_vec3_lerp_0)
  have at1: "\<forall>u v. vec3_lerp ref_mathlib u v 1 = v"
    by (simp add: ref_mathlib_def ref_vec3_lerp_1)
  note inst = mix_pose_identity_and_endpoints
                [OF lens, where ml = ref_mathlib and unit = "\<lambda>q. quat_len q = 1"
                   and w = "1 / 2"]
  have "mix_pose ref_mathlib model0 frame_b frame_b (1 / 2)
        = Inr (model0\<lparr>pose := take (bones_len model0) frame_b\<rparr>)"
    using inst same rot unit by simp
  then have self: "mix_pose ref_mathlib model0 frame_b frame_b (1 / 2)
                   = Inr (model0\<lparr>pose := frame_b\<rparr>)"
    by (simp add: two)
  obtain m0 where m0: "mix_pose ref_mathlib model0 frame_b frame_a 0 = Inr m0"
    "\<forall>i < bones_len model0. translate (pose m0 ! i) = translate (frame_b ! i)
                            \<and> scale (pose m0 ! i) = scale (frame_b ! i)"
    using inst at0 by blast
  obtain m1 where m1: "mix_pose ref_mathlib model0 frame_b frame_a 1 = Inr m1"
    "\<forall>i < bones_len model0. translate (pose m1 ! i) = translate (frame_a ! i)
                            \<and> scale (pose m1 ! i) = scale (frame_a ! i)"
    using inst at1 by blast
  have len0: "length (pose m0) = 2" "length (pose m1) = 2"
    using m0(1) m1(1) mix_pose_blend [OF lens(1,2,3), of ref_mathlib]
    by (auto simp: blend_def two)
  have "map translate (pose m0) = map translate frame_b"
    "map scale (pose m0) = map scale frame_b"
    "map translate (pose m1) = map translate frame_a"
    "map scale (pose m1) = map scale frame_a"
    using m0(2) m1(2) len0 by (auto intro!: nth_equalityI simp: two)
  with self m0(1) m1(1) show ?thesis by blast
qed

section \<open>Rotations in the pose buffer\<close>





section \<open>The skeleton matrix composer\<close>

lemma ancestor_firstD:
  "ancestor_first bs \<Longrightarrow> i < length bs \<Longrightarrow> parent (bs ! i) < int i"
  by (simp add: ancestor_first_def list_all_iff)

lemma bone_world_parent:
  assumes "ancestor_first bs" "i < length bs" "0 \<le> parent (bs ! i)"
  shows "bone_world ml bs p i
         = mat4x4_mul ml
             (calc_bone_matrix ml (translate (p ! i)) (rotate_q (p ! i)) (scale (p ! i)))
             (bone_world ml bs p (nat (parent (bs ! i))))"
proof -
  have "nat (parent (bs ! i)) < i"
    using ancestor_firstD [OF assms(1,2)] assms(3) by linarith
  then show ?thesis
    using assms(3) by (subst bone_world.simps) simp
qed

lemma bone_world_root:
  assumes "\<not> 0 \<le> parent (bs ! i)"
  shows "bone_world ml bs p i
         = calc_bone_matrix ml (translate (p ! i)) (rotate_q (p ! i)) (scale (p ! i))"
  using assms by (subst bone_world.simps) simp

lemma model_update_matrices_loop:
  fixes ml :: "('v, 'q, 'mx) mathlib" and m :: "('v, 'q, 'mx) model_t"
  assumes af: "ancestor_first (bones m)"
    and lens: "bones_len m \<le> length (pose m)" "bones_len m \<le> length (inverse_base m)"
              "bones_len m \<le> length (skeleton m)"
  shows "k \<le> bones_len m \<Longrightarrow>
         for_each [0..<k] (model_update_matrices_body ml m)
           (replicate (bones_len m) None, skeleton m)
         = Inr (map (\<lambda>j. if j < k then Some (bone_world ml (bones m) (pose m) j) else None)
                  [0..<bones_len m],
                map (\<lambda>j. if j < k
                          then mat4x4_mul ml (inverse_base m ! j)
                                 (bone_world ml (bones m) (pose m) j)
                          else skeleton m ! j)
                  [0..<length (skeleton m)])"
proof (induction k)
  case 0
  show ?case
    by (auto intro!: nth_equalityI)
next
  case (Suc k)
  let ?W = "bone_world ml (bones m) (pose m)"
  let ?T = "\<lambda>k. map (\<lambda>j. if j < k then Some (?W j) else None) [0..<bones_len m]"
  let ?S = "\<lambda>k. map (\<lambda>j. if j < k then mat4x4_mul ml (inverse_base m ! j) (?W j)
                          else skeleton m ! j) [0..<length (skeleton m)]"
  have k: "k < bones_len m" using Suc.prems by simp
  have IH: "for_each [0..<k] (model_update_matrices_body ml m)
              (replicate (bones_len m) None, skeleton m) = Inr (?T k, ?S k)"
    using Suc by simp
  have T: "(?T k)[k := Some (?W k)] = ?T (Suc k)"
    using k by (auto intro!: nth_equalityI simp: nth_list_update less_Suc_eq)
  have S: "(?S k)[k := mat4x4_mul ml (inverse_base m ! k) (?W k)] = ?S (Suc k)"
    using k lens by (auto intro!: nth_equalityI simp: nth_list_update less_Suc_eq)
  have step: "model_update_matrices_body ml m k (?T k, ?S k) = Inr (?T (Suc k), ?S (Suc k))"
  proof (cases "0 \<le> parent (bones m ! k)")
    case True
    have par: "nat (parent (bones m ! k)) < k"
      using ancestor_firstD [OF af, of k] k True by (simp add: bones_len_def)
    have W: "?W k = mat4x4_mul ml
                     (calc_bone_matrix ml (translate (pose m ! k)) (rotate_q (pose m ! k))
                        (scale (pose m ! k)))
                     (?W (nat (parent (bones m ! k))))"
      using af k True by (intro bone_world_parent) (simp_all add: bones_len_def)
    have "model_update_matrices_body ml m k (?T k, ?S k)
          = Inr ((?T k)[k := Some (?W k)],
                 (?S k)[k := mat4x4_mul ml (inverse_base m ! k) (?W k)])"
      using k lens True par
      by (simp add: model_update_matrices_body_def Let_def W [symmetric] bones_len_def)
    then show ?thesis by (simp only: T S)
  next
    case False
    have W: "?W k = calc_bone_matrix ml (translate (pose m ! k)) (rotate_q (pose m ! k))
                      (scale (pose m ! k))"
      using False by (rule bone_world_root)
    have "model_update_matrices_body ml m k (?T k, ?S k)
          = Inr ((?T k)[k := Some (?W k)],
                 (?S k)[k := mat4x4_mul ml (inverse_base m ! k) (?W k)])"
      using k lens False
      by (simp add: model_update_matrices_body_def Let_def W [symmetric] bones_len_def)
    then show ?thesis by (simp only: T S)
  qed
  show ?case
    by (simp add: for_each_append IH step)
qed

lemma model_update_matrices_general:
  fixes ml :: "('v, 'q, 'mx) mathlib" and m :: "('v, 'q, 'mx) model_t"
  assumes "ancestor_first (bones m)"
    and "bones_len m \<le> length (pose m)" "bones_len m \<le> length (inverse_base m)"
        "bones_len m \<le> length (skeleton m)"
  shows "model_update_matrices ml m
         = Inr (m\<lparr>skeleton :=
                   map (\<lambda>j. if j < bones_len m
                             then mat4x4_mul ml (inverse_base m ! j)
                                    (bone_world ml (bones m) (pose m) j)
                             else skeleton m ! j)
                     [0..<length (skeleton m)]\<rparr>)"
  using model_update_matrices_loop [OF assms order_refl, of ml]
  by (simp add: model_update_matrices_def)


lemma calc_bone_matrix_unfolded:
  "calc_bone_matrix ml pos rot scl
   = mat4x4_mul ml
       (mat4x4_mul ml
          (mat4x4_mul ml (mat4x4_identity ml) (mat4x4_scale_xyz ml scl))
          (mat4x4_rotate_quat ml rot))
       (mat4x4_translate ml pos)"
  by (simp add: calc_bone_matrix_def)

text \<open>
  Claim C6. When the bones are stored ancestor-first and the pose buffer, the inverse
  bind matrices and the skeleton have one entry per bone, \<^verbatim>\<open>model_update_matrices\<close>
  returns the model with only the skeleton replaced, and for every bone the matrix
  written is \<^verbatim>\<open>mat4x4_mul\<close> of the bone's inverse bind matrix and its world
  transform. The world transform of a bone with a parent is \<^verbatim>\<open>mat4x4_mul\<close> of its
  local matrix and the world transform of the parent; that of a root is its local
  matrix. The local matrix is the identity multiplied by the scale matrix, then by
  the rotation matrix, then by the translation matrix of the pose entry.
\<close>

theorem model_update_matrices_composes:
  fixes ml :: "('v, 'q, 'mx) mathlib" and m :: "('v, 'q, 'mx) model_t"
  assumes "ancestor_first (bones m)"
    and "length (pose m) = bones_len m"
    and "length (inverse_base m) = bones_len m"
    and "length (skeleton m) = bones_len m"
  shows "\<exists>sk. model_update_matrices ml m = Inr (m\<lparr>skeleton := sk\<rparr>)
           \<and> length sk = bones_len m
           \<and> (\<forall>i < bones_len m.
                 sk ! i = mat4x4_mul ml (inverse_base m ! i) (bone_world ml (bones m) (pose m) i)
               \<and> bone_world ml (bones m) (pose m) i
                 = (if 0 \<le> parent (bones m ! i)
                    then mat4x4_mul ml
                           (calc_bone_matrix ml (translate (pose m ! i)) (rotate_q (pose m ! i))
                              (scale (pose m ! i)))
                           (bone_world ml (bones m) (pose m) (nat (parent (bones m ! i))))
                    else calc_bone_matrix ml (translate (pose m ! i)) (rotate_q (pose m ! i))
                           (scale (pose m ! i)))
               \<and> calc_bone_matrix ml (translate (pose m ! i)) (rotate_q (pose m ! i))
                    (scale (pose m ! i))
                 = mat4x4_mul ml
                     (mat4x4_mul ml
                        (mat4x4_mul ml (mat4x4_identity ml)
                           (mat4x4_scale_xyz ml (scale (pose m ! i))))
                        (mat4x4_rotate_quat ml (rotate_q (pose m ! i))))
                     (mat4x4_translate ml (translate (pose m ! i))))"
proof -
  let ?sk = "map (\<lambda>j. if j < bones_len m
                       then mat4x4_mul ml (inverse_base m ! j)
                              (bone_world ml (bones m) (pose m) j)
                       else skeleton m ! j)
               [0..<length (skeleton m)]"
  have run: "model_update_matrices ml m = Inr (m\<lparr>skeleton := ?sk\<rparr>)"
    using assms by (intro model_update_matrices_general) simp_all
  have world: "bone_world ml (bones m) (pose m) i
               = (if 0 \<le> parent (bones m ! i)
                  then mat4x4_mul ml
                         (calc_bone_matrix ml (translate (pose m ! i)) (rotate_q (pose m ! i))
                            (scale (pose m ! i)))
                         (bone_world ml (bones m) (pose m) (nat (parent (bones m ! i))))
                  else calc_bone_matrix ml (translate (pose m ! i)) (rotate_q (pose m ! i))
                         (scale (pose m ! i)))"
    if "i < bones_len m" for i
    using that assms(1) bone_world_parent [of "bones m" i ml "pose m"]
      bone_world_root [of "bones m" i ml "pose m"]
    by (simp add: bones_len_def)
  show ?thesis
  proof (intro exI conjI allI impI)
    show "model_update_matrices ml m = Inr (m\<lparr>skeleton := ?sk\<rparr>)" by (rule run)
    show "length ?sk = bones_len m" using assms by simp
  next
    fix i assume "i < bones_len m"
    then show "?sk ! i = mat4x4_mul ml (inverse_base m ! i) (bone_world ml (bones m) (pose m) i)"
      using assms by simp
  next
    fix i assume "i < bones_len m"
    then show "bone_world ml (bones m) (pose m) i
               = (if 0 \<le> parent (bones m ! i)
                  then mat4x4_mul ml
                         (calc_bone_matrix ml (translate (pose m ! i)) (rotate_q (pose m ! i))
                            (scale (pose m ! i)))
                         (bone_world ml (bones m) (pose m) (nat (parent (bones m ! i))))
                  else calc_bone_matrix ml (translate (pose m ! i)) (rotate_q (pose m ! i))
                         (scale (pose m ! i)))"
      by (rule world)
  next
    fix i
    show "calc_bone_matrix ml (translate (pose m ! i)) (rotate_q (pose m ! i))
            (scale (pose m ! i))
          = mat4x4_mul ml
              (mat4x4_mul ml
                 (mat4x4_mul ml (mat4x4_identity ml)
                    (mat4x4_scale_xyz ml (scale (pose m ! i))))
                 (mat4x4_rotate_quat ml (rotate_q (pose m ! i))))
              (mat4x4_translate ml (translate (pose m ! i)))"
      by (rule calc_bone_matrix_unfolded)
  qed
qed

theorem model_update_matrices_composes_witness:
  "ancestor_first (bones model0)
   \<and> length (pose model0) = bones_len model0
   \<and> length (inverse_base model0) = bones_len model0
   \<and> length (skeleton model0) = bones_len model0
   \<and> model_update_matrices ref_mathlib model0
       = Inr (model0\<lparr>skeleton := [Mul (Given 0) local_a, Mul (Given 1) (Mul local_a local_a)]\<rparr>)"
proof -
  have af: "ancestor_first (bones model0)"
    by (simp add: ancestor_first_def model0_def upt_rec numeral_2_eq_2)
  have lens: "length (pose model0) = bones_len model0"
    "length (inverse_base model0) = bones_len model0"
    "length (skeleton model0) = bones_len model0"
    by (simp_all add: model0_def bones_len_def frame_a_def)
  obtain sk where run: "model_update_matrices ref_mathlib model0 = Inr (model0\<lparr>skeleton := sk\<rparr>)"
    and len: "length sk = bones_len model0"
    and sk: "\<And>i. i < bones_len model0 \<Longrightarrow>
               sk ! i = mat4x4_mul ref_mathlib (inverse_base model0 ! i)
                          (bone_world ref_mathlib (bones model0) (pose model0) i)"
    using model_update_matrices_composes [OF af lens, of ref_mathlib] by blast
  have w0: "bone_world ref_mathlib (bones model0) (pose model0) 0 = local_a"
    by (subst bone_world.simps)
      (simp add: model0_def frame_a_def pose_a_def calc_bone_matrix_def ref_mathlib_def local_a_def)
  have w1: "bone_world ref_mathlib (bones model0) (pose model0) (Suc 0) = Mul local_a local_a"
  proof -
    have "bone_world ref_mathlib (bones model0) (pose model0) (Suc 0)
          = mat4x4_mul ref_mathlib
              (calc_bone_matrix ref_mathlib (translate (pose model0 ! Suc 0))
                 (rotate_q (pose model0 ! Suc 0)) (scale (pose model0 ! Suc 0)))
              (bone_world ref_mathlib (bones model0) (pose model0)
                 (nat (parent (bones model0 ! Suc 0))))"
      by (rule bone_world_parent [OF af]) (simp_all add: model0_def)
    moreover have "nat (parent (bones model0 ! Suc 0)) = 0"
      by (simp add: model0_def)
    moreover have "calc_bone_matrix ref_mathlib (translate (pose model0 ! Suc 0))
                     (rotate_q (pose model0 ! Suc 0)) (scale (pose model0 ! Suc 0)) = local_a"
      by (simp add: model0_def frame_a_def pose_a_def calc_bone_matrix_def ref_mathlib_def
            local_a_def)
    ultimately show ?thesis
      using w0 by (simp add: ref_mathlib_def)
  qed
  have "sk ! 0 = Mul (Given 0) local_a" "sk ! Suc 0 = Mul (Given 1) (Mul local_a local_a)"
    using sk [of 0] sk [of "Suc 0"]
    by (simp_all add: w0 w1) (simp_all add: model0_def bones_len_def ref_mathlib_def)
  moreover have "length sk = 2" using len by (simp add: model0_def bones_len_def)
  ultimately have "sk = [Mul (Given 0) local_a, Mul (Given 1) (Mul local_a local_a)]"
    by (auto intro!: nth_equalityI simp: less_Suc_eq numeral_2_eq_2)
  with af lens run show ?thesis by simp
qed

section \<open>Single precision rounding\<close>

lemma round_half_even_of_int [simp]: "round_half_even (of_int n) = n"
  by (simp add: round_half_even_def)

lemma float32_round_0 [simp]: "float32_round 0 = 0"
  by (simp add: float32_round_def)

text \<open>The rounding of a number between two consecutive powers of two.\<close>

lemma float32_round_at:
  assumes "2 powi k \<le> \<bar>x\<bar>" "\<bar>x\<bar> < 2 powi (k + 1)" "- 126 \<le> k"
  shows "float32_round x = of_int (round_half_even (x * 2 powi (23 - k))) * 2 powi (k - 23)"
proof -
  have pos: "0 < \<bar>x\<bar>"
    using assms(1) by (smt (verit) zero_less_power_int)
  have "2 powr (real_of_int k) = (2::real) powi k"
    "2 powr (real_of_int (k + 1)) = (2::real) powi (k + 1)"
    by (rule powr_real_of_int'; simp)+
  then have "\<lfloor>log 2 \<bar>x\<bar>\<rfloor> = k"
    using assms(1,2) pos floor_log_eq_powr_iff [of "\<bar>x\<bar>" 2 k] by simp
  moreover have "x \<noteq> 0" using pos by simp
  ultimately show ?thesis
    using assms(3) by (simp add: float32_round_def max_def)
qed

text \<open>A number with a significand of at most 24 bits is a float: it is not rounded.\<close>

lemma float32_round_exact:
  assumes "2 powi k \<le> \<bar>x\<bar>" "\<bar>x\<bar> < 2 powi (k + 1)" "- 126 \<le> k"
    and "x * 2 powi (23 - k) = of_int n"
  shows "float32_round x = x"
proof -
  have "float32_round x = of_int n * 2 powi (k - 23)"
    using float32_round_at [OF assms(1-3)] assms(4) by simp
  also have "\<dots> = x * (2 powi (23 - k) * 2 powi (k - 23))"
    using assms(4) by simp
  also have "2 powi (23 - k) * 2 powi (k - 23) = (1::real)"
    by (simp flip: power_int_add)
  finally show ?thesis by simp
qed

text \<open>Every integer up to \<open>2^24\<close> is a float.\<close>

lemma float32_round_of_nat:
  assumes "n \<le> 2 ^ 24"
  shows "float32_round (of_nat n) = of_nat n"
proof (cases "n = 0")
  case True
  then show ?thesis by simp
next
  case False
  define k where "k = \<lfloor>log 2 (real n)\<rfloor>"
  have pos: "0 < real n" using False by simp
  have pw: "2 powr (real_of_int k) = (2::real) powi k"
    "2 powr (real_of_int (k + 1)) = (2::real) powi (k + 1)"
    by (rule powr_real_of_int'; simp)+
  have bounds: "2 powi k \<le> real n" "real n < 2 powi (k + 1)"
    using floor_log_eq_powr_iff [of "real n" 2 k] pos pw by (simp_all add: k_def)
  have k0: "0 \<le> k"
    using False by (simp add: k_def)
  have "real n \<le> 2 ^ 24"
    using assms by (metis of_nat_le_iff of_nat_numeral of_nat_power)
  then have "(2::real) powi k \<le> 2 powi 24"
    using bounds(1) by simp
  then have k24: "k \<le> 24"
    by (rule power_int_le_imp_le_exp [rotated]) simp_all
  show ?thesis
  proof (cases "k = 24")
    case True
    then have "real n = 2 ^ 24"
      using bounds(1) \<open>real n \<le> 2 ^ 24\<close> by simp
    moreover have "float32_round 16777216 = 16777216"
      by (rule float32_round_exact [where k = 24 and n = 8388608]) simp_all
    ultimately show ?thesis by simp
  next
    case False
    with k24 have k23: "k \<le> 23" by simp
    have "(2::real) powi (23 - k) = 2 ^ nat (23 - k)"
      using k23 by (simp add: power_int_def)
    then have eq: "real n * 2 powi (23 - k) = of_int (int n * 2 ^ nat (23 - k))"
      by simp
    have "- 126 \<le> k"
      using k0 by simp
    moreover have "2 powi k \<le> \<bar>real n\<bar>" "\<bar>real n\<bar> < 2 powi (k + 1)"
      using bounds by simp_all
    ultimately show ?thesis
      using eq by (intro float32_round_exact [where k = k])
  qed
qed

text \<open>The floats that the runs below meet, and 16777217, which is not a float.\<close>

lemma float32_values:
  "float32_round 8 = 8" "float32_round 9 = 9" "float32_round 12 = 12"
  "float32_round 16 = 16" "float32_round 16777216 = 16777216"
  "float32_round 16777220 = 16777220" "float32_round 4294967296 = 4294967296"
proof -
  show "float32_round 8 = 8"
    using float32_round_of_nat [of 8] by simp
  show "float32_round 9 = 9"
    using float32_round_of_nat [of 9] by simp
  show "float32_round 12 = 12"
    using float32_round_of_nat [of 12] by simp
  show "float32_round 16 = 16"
    using float32_round_of_nat [of 16] by simp
  show "float32_round 16777216 = 16777216"
    using float32_round_of_nat [of 16777216] by simp
  show "float32_round 16777220 = 16777220"
    by (rule float32_round_exact [where k = 24 and n = 8388610]) simp_all
  show "float32_round 4294967296 = 4294967296"
    by (rule float32_round_exact [where k = 32 and n = 8388608]) simp_all
qed

lemma float32_fractions:
  "float32_round (1 / 2) = 1 / 2" "float32_round (7 / 2) = 7 / 2"
  "float32_round (29 / 2) = 29 / 2" "float32_round (49 / 4) = 49 / 4"
  "float32_round (59 / 4) = 59 / 4" "float32_round (99717 / 4) = 99717 / 4"
proof -
  show "float32_round (99717 / 4) = 99717 / 4"
    by (rule float32_round_exact [where k = 14 and n = 12763776]) simp_all
  show "float32_round (1 / 2) = 1 / 2"
    by (rule float32_round_exact [where k = "- 1" and n = 8388608]) simp_all
  show "float32_round (7 / 2) = 7 / 2"
    by (rule float32_round_exact [where k = 1 and n = 14680064]) simp_all
  show "float32_round (29 / 2) = 29 / 2"
    by (rule float32_round_exact [where k = 3 and n = 15204352]) simp_all
  show "float32_round (49 / 4) = 49 / 4"
    by (rule float32_round_exact [where k = 3 and n = 12845056]) simp_all
  show "float32_round (59 / 4) = 59 / 4"
    by (rule float32_round_exact [where k = 3 and n = 15466496]) simp_all
qed

lemma float32_round_16777217: "float32_round 16777217 = 16777216"
  using float32_round_at [of 24 16777217]
  by (simp add: round_half_even_def)

lemmas float_ops = fmul_def fadd_def fsub_def fdiv_def uint32_to_float_def

text \<open>A float product need not be the product: \<open>24929 * 673 = 2^24 + 1\<close> is rounded.\<close>

lemma fmul_rounds_product: "fmul 24929 673 = 16777216"
  by (simp add: fmul_def float32_round_16777217)

section \<open>The playback step\<close>

lemma float_to_uint32_of_nat_unat:
  "float_to_uint32 (of_nat (unat w)) = Inr w"
proof -
  have eq: "(of_nat (unat w) :: real) = of_int (uint w)"
    by simp
  have fl: "\<lfloor>(of_nat (unat w) :: real)\<rfloor> = uint w"
    by (simp only: eq floor_of_int)
  have nn: "(0::real) \<le> of_nat (unat w)"
    by (rule of_nat_0_le_iff)
  have "uint w < 2 ^ 32"
    using uint_lt2p [of w] by simp
  then show ?thesis
    using nn unfolding float_to_uint32_def Let_def fl by simp
qed

text \<open>The frame recomputed at a wrap is the first frame when the first frame is a float.\<close>

lemma wrapped_frame_small:
  assumes "unat (first clip) \<le> 2 ^ 24"
  shows "wrapped_frame clip = Inr (first clip)"
proof -
  have "float32_round (of_nat (unat (first clip))) = of_nat (unat (first clip))"
    using assms by (rule float32_round_of_nat)
  then have "fadd (uint32_to_float (first clip)) (fmul 0 (rate clip))
             = of_nat (unat (first clip))"
    unfolding float_ops by (simp del: of_nat_unat)
  then show ?thesis
    unfolding wrapped_frame_def by (simp only: float_to_uint32_of_nat_unat)
qed

lemma float_to_uint32_floor:
  assumes "0 \<le> x" "\<lfloor>x\<rfloor> < 2 ^ 32"
  shows "float_to_uint32 x = Inr (word_of_int \<lfloor>x\<rfloor>)"
  using assms by (simp add: float_to_uint32_def)

lemma and_then_eq_Inr:
  "and_then r f = Inr y \<longleftrightarrow> (\<exists>x. r = Inr x \<and> f x = Inr y)"
  by (cases r) simp_all

lemma mix_pose_frame:
  "mix_pose ml m a b w = Inr m' \<Longrightarrow> \<exists>p. m' = m\<lparr>pose := p\<rparr>"
  by (auto simp: mix_pose_def and_then_eq_Inr)

lemma model_update_matrices_frame:
  "model_update_matrices ml m = Inr m' \<Longrightarrow> \<exists>sk. m' = m\<lparr>skeleton := sk\<rparr>"
  by (auto simp: model_update_matrices_def and_then_eq_Inr)

lemma frame_at_updates [simp]:
  "frame_at (m\<lparr>mesh_list := l\<rparr>) = frame_at m"
  "frame_at (m\<lparr>current_time := t\<rparr>) = frame_at m"
  "frame_at (m\<lparr>current_frame := f\<rparr>) = frame_at m"
  "frame_at (m\<lparr>pose := p\<rparr>) = frame_at m"
  "frame_at (m\<lparr>skeleton := sk\<rparr>) = frame_at m"
  "frame_at (m\<lparr>current_anim := c\<rparr>) = frame_at m"
  by (simp_all add: frame_at_def frames_len_def fun_eq_iff)

lemma anim_at_updates [simp]:
  "anim_at (m\<lparr>mesh_list := l\<rparr>) = anim_at m"
  "anim_at (m\<lparr>current_time := t\<rparr>) = anim_at m"
  "anim_at (m\<lparr>current_frame := f\<rparr>) = anim_at m"
  "anim_at (m\<lparr>pose := p\<rparr>) = anim_at m"
  "anim_at (m\<lparr>skeleton := sk\<rparr>) = anim_at m"
  "anim_at (m\<lparr>current_anim := c\<rparr>) = anim_at m"
  by (simp_all add: anim_at_def anims_len_def fun_eq_iff)

lemma bones_len_updates [simp]:
  "bones_len (m\<lparr>mesh_list := l\<rparr>) = bones_len m"
  "bones_len (m\<lparr>current_time := t\<rparr>) = bones_len m"
  "bones_len (m\<lparr>current_frame := f\<rparr>) = bones_len m"
  "bones_len (m\<lparr>pose := p\<rparr>) = bones_len m"
  "bones_len (m\<lparr>skeleton := sk\<rparr>) = bones_len m"
  "bones_len (m\<lparr>current_anim := c\<rparr>) = bones_len m"
  by (simp_all add: bones_len_def)

text \<open>The tick is the playback step, then the blend, then the matrices.\<close>

lemma model_update_advance:
  "model_update ml m delta_time
   = (let m0 = m\<lparr>mesh_list := update_meshes m (mesh_list m)\<rparr> in
      case current_anim m of
        None \<Rightarrow> Inr m0
      | Some k \<Rightarrow>
          and_then (anim_at m k) (\<lambda>clip.
          and_then (advance clip (current_time m) delta_time) (\<lambda>r.
            case r of
              Hold \<Rightarrow> Inr m0
            | Play t cur nxt w \<Rightarrow>
                and_then (frame_at m (uint cur)) (\<lambda>a.
                and_then (frame_at m (sint nxt)) (\<lambda>b.
                and_then (mix_pose ml (m0\<lparr>current_time := t, current_frame := cur\<rparr>) a b w)
                  (model_update_matrices ml))))))"
proof (cases "current_anim m")
  case None
  then show ?thesis by (simp add: model_update_def)
next
  case (Some k)
  show ?thesis
  proof (cases "anim_at m k")
    case (Inl e)
    with Some show ?thesis
      by (simp add: model_update_def)
  next
    case (Inr clip)
    show ?thesis
    proof (cases "float_to_uint32 (fmul (current_time m) (rate clip))")
      case (Inl e)
      with Some Inr show ?thesis
        by (simp add: model_update_def advance_def)
    next
      case conv: (Inr elapsed)
      consider (hold) "elapsed > last_fr clip + first clip" "\<not> loop clip"
        | (once) "\<not> elapsed > last_fr clip + first clip" "\<not> loop clip"
        | (below) "loop clip" "\<not> last_fr clip + first clip \<le> first clip + elapsed"
        | (wrap) "loop clip" "last_fr clip + first clip \<le> first clip + elapsed"
        by blast
      then show ?thesis
      proof cases
        case hold
        with Some Inr conv show ?thesis
          by (simp add: model_update_def advance_def frame_span_def)
      next
        case once
        with Some Inr conv show ?thesis
          by (simp add: model_update_def advance_def frame_span_def Let_def)
      next
        case below
        with Some Inr conv show ?thesis
          by (simp add: model_update_def advance_def frame_span_def Let_def)
      next
        case wrap
        show ?thesis
        proof (cases "wrapped_frame clip")
          case (Inl e)
          with wrap Some Inr conv show ?thesis
            by (simp add: model_update_def advance_def frame_span_def Let_def)
               (simp add: wrapped_frame_def)
        next
          case (Inr f)
          with wrap Some \<open>anim_at m k = Inr clip\<close> conv show ?thesis
            by (simp add: model_update_def advance_def frame_span_def Let_def)
               (simp add: wrapped_frame_def)
        qed
      qed
    qed
  qed
qed

lemma model_update_matrices_returns:
  fixes ml :: "('v, 'q, 'mx) mathlib" and m :: "('v, 'q, 'mx) model_t"
  assumes "ancestor_first (bones m)"
    and "bones_len m \<le> length (pose m)" "bones_len m \<le> length (inverse_base m)"
        "bones_len m \<le> length (skeleton m)"
  shows "\<exists>sk. length sk = length (skeleton m)
              \<and> model_update_matrices ml m = Inr (m\<lparr>skeleton := sk\<rparr>)"
proof -
  let ?sk = "map (\<lambda>j. if j < bones_len m
                       then mat4x4_mul ml (inverse_base m ! j)
                              (bone_world ml (bones m) (pose m) j)
                       else skeleton m ! j)
               [0..<length (skeleton m)]"
  have "length ?sk = length (skeleton m)" by simp
  moreover have "model_update_matrices ml m = Inr (m\<lparr>skeleton := ?sk\<rparr>)"
    by (rule model_update_matrices_general [OF assms])
  ultimately show ?thesis by blast
qed

text \<open>A tick that plays, on a model whose arrays have one entry per bone and whose
  bones are ancestor-first, returns: it writes the time and frame of the playback step,
  the blend of the two selected frames and a skeleton.\<close>

lemma model_update_play:
  fixes ml :: "('v, 'q, 'mx) mathlib" and m :: "('v, 'q, 'mx) model_t"
  assumes anim: "current_anim m = Some k" "anim_at m k = Inr clip"
    and adv: "advance clip (current_time m) delta_time = Inr (Play t cur nxt w)"
    and fr: "frame_at m (uint cur) = Inr a" "frame_at m (sint nxt) = Inr b"
    and wf: "ancestor_first (bones m)" "length (pose m) = bones_len m"
            "length (inverse_base m) = bones_len m" "length (skeleton m) = bones_len m"
            "bones_len m \<le> length a" "bones_len m \<le> length b"
  shows "\<exists>sk. length sk = bones_len m
              \<and> model_update ml m delta_time
                  = Inr (m\<lparr>mesh_list := update_meshes m (mesh_list m),
                            current_time := t, current_frame := cur,
                            pose := blend ml (bones_len m) a b w, skeleton := sk\<rparr>)"
proof -
  let ?m1 = "m\<lparr>mesh_list := update_meshes m (mesh_list m),
                current_time := t, current_frame := cur\<rparr>"
  have bl: "bones_len ?m1 = bones_len m" by (simp add: bones_len_def)
  have mix: "mix_pose ml ?m1 a b w = Inr (?m1\<lparr>pose := blend ml (bones_len m) a b w\<rparr>)"
    using wf mix_pose_blend [of ?m1 a b ml w] by (simp add: bl)
  let ?m2 = "?m1\<lparr>pose := blend ml (bones_len m) a b w\<rparr>"
  have "\<exists>sk. length sk = length (skeleton ?m2)
             \<and> model_update_matrices ml ?m2 = Inr (?m2\<lparr>skeleton := sk\<rparr>)"
    using wf by (intro model_update_matrices_returns) (simp_all add: bones_len_def blend_def)
  then obtain sk where "length sk = bones_len m"
    and "model_update_matrices ml ?m2 = Inr (?m2\<lparr>skeleton := sk\<rparr>)"
    using wf by auto
  then show ?thesis
    using anim adv fr mix by (auto simp: model_update_advance)
qed

lemma model_update_play_result:
  assumes run: "model_update ml m delta_time = Inr m'"
    and anim: "current_anim m = Some k" "anim_at m k = Inr clip"
    and adv: "advance clip (current_time m) delta_time = Inr (Play t cur nxt w)"
  shows "current_time m' = t \<and> current_frame m' = cur"
proof -
  let ?m1 = "m\<lparr>mesh_list := update_meshes m (mesh_list m),
                current_time := t, current_frame := cur\<rparr>"
  have "and_then (frame_at m (uint cur)) (\<lambda>a.
          and_then (frame_at m (sint nxt)) (\<lambda>b.
          and_then (mix_pose ml ?m1 a b w) (model_update_matrices ml))) = Inr m'"
    using run anim adv by (simp add: model_update_advance)
  then obtain a b m2
    where "mix_pose ml ?m1 a b w = Inr m2" "model_update_matrices ml m2 = Inr m'"
    unfolding and_then_eq_Inr by blast
  then obtain p sk where "m2 = ?m1\<lparr>pose := p\<rparr>" "m' = m2\<lparr>skeleton := sk\<rparr>"
    using mix_pose_frame model_update_matrices_frame by blast
  then show ?thesis by simp
qed

section \<open>Runs of the small model\<close>

lemma ancestor_first_model0: "ancestor_first (bones model0)"
  by (simp add: ancestor_first_def model0_def upt_rec numeral_2_eq_2)

lemma model0_lengths:
  "bones_len model0 = 2" "length (pose model0) = 2" "length (inverse_base model0) = 2"
  "length (skeleton model0) = 2" "length frame_a = 2" "length frame_b = 2"
  by (simp_all add: model0_def bones_len_def frame_a_def frame_b_def)

lemma model0_anims:
  "anim_at model0 0 = Inr clip_loop" "anim_at model0 (Suc 0) = Inr clip_once"
  by (simp_all add: anim_at_def anims_len_def model0_def)

lemma model0_frames:
  "frame_at model0 0 = Inr frame_a"
  "frame_at model0 1 = Inr frame_b"
  "frame_at model0 5 = Inr frame_b"
  "frame_at model0 6 = Inr frame_a"
  "frame_at model0 10 = Inr frame_a"
  "frame_at model0 13 = Inr frame_b"
  "frame_at model0 14 = Inr frame_a"
  by (simp_all add: frame_at_def frames_len_def model0_def)

lemma playing_fields [simp]:
  "current_anim (playing k t f) = Some k" "current_time (playing k t f) = t"
  "current_frame (playing k t f) = f" "bones (playing k t f) = bones model0"
  "pose (playing k t f) = pose model0" "inverse_base (playing k t f) = inverse_base model0"
  "skeleton (playing k t f) = skeleton model0" "bones_len (playing k t f) = bones_len model0"
  "anim_at (playing k t f) = anim_at model0" "frame_at (playing k t f) = frame_at model0"
  by (simp_all add: playing_def)

lemma update_meshes_playing:
  "update_meshes (playing k t f) (mesh_list (playing k t f))
   = Node (Some mesh1) (Some (Node None None))"
  by (simp add: playing_def model0_def mesh0_def mesh1_def)

lemma model_set_anim_once: "model_set_anim model0 1 = Inr (playing 1 0 5)"
  by (simp add: model_set_anim_def anims_len_def model0_def playing_def clip_once_def)

lemma advance_once_0: "advance clip_once 0 8 = Inr (Play 8 5 6 0)"
  by (simp add: advance_def clip_once_def frame_span_def float_to_uint32_def float_ops
        float32_values)

lemma advance_once_8: "advance clip_once 8 1 = Inr (Play 9 13 14 0)"
  by (simp add: advance_def clip_once_def frame_span_def float_to_uint32_def float_ops
        float32_values)

text \<open>
  Claim C1 does not hold of the code. In the small model, select the non-looping clip
  over frames 5 to 10 (rate 1), tick 8 seconds, tick 1 second: the last tick computes
  position 8 and frame \<open>5 + 8 = 13\<close>, compares it with \<open>len = 10 + 5 = 15\<close>, finds
  it below and leaves it, so \<open>current_frame\<close> is 13, outside \<open>[5, 10]\<close>.
\<close>

theorem model_update_leaves_clip_range:
  "\<exists>m'. and_then (model_set_anim model0 1) (\<lambda>m.
         and_then (model_update ref_mathlib m 8) (\<lambda>m.
         model_update ref_mathlib m 1)) = Inr m'
        \<and> current_anim m' = Some 1
        \<and> current_frame m' = 13
        \<and> \<not> (first clip_once \<le> current_frame m' \<and> current_frame m' \<le> last_fr clip_once)"
proof -
  obtain sk1 m1 where sk1: "length sk1 = 2"
    and m1: "m1 = (playing 1 0 5)\<lparr>mesh_list := update_meshes (playing 1 0 5) (mesh_list (playing 1 0 5)),
              current_time := 8, current_frame := 5,
              pose := blend ref_mathlib 2 frame_b frame_a 0,
              skeleton := sk1\<rparr>"
    and run1: "model_update ref_mathlib (playing 1 0 5) 8 = Inr m1"
    using model_update_play [of "playing 1 0 5" 1 clip_once 8 8 5 6 0 frame_b frame_a ref_mathlib]
    by (auto simp: model0_anims model0_frames advance_once_0 ancestor_first_model0 model0_lengths)
  obtain sk2 where
    run2: "model_update ref_mathlib m1 1
     = Inr (m1\<lparr>mesh_list := update_meshes m1 (mesh_list m1),
              current_time := 9, current_frame := 13,
              pose := blend ref_mathlib (bones_len m1) frame_b frame_a 0,
              skeleton := sk2\<rparr>)"
    using model_update_play [of m1 1 clip_once 1 9 13 14 0 frame_b frame_a ref_mathlib]
    by (auto simp: m1 sk1 model0_anims model0_frames advance_once_8 ancestor_first_model0
          model0_lengths blend_def)
  show ?thesis
    unfolding model_set_anim_once and_then_Inr run1 run2
    by (simp add: m1 clip_once_def)
qed

section \<open>The claims about the playback step\<close>

lemma advance_unfolded:
  "advance clip time delta_time
   = and_then (float_to_uint32 (fmul time (rate clip))) (\<lambda>elapsed.
       if elapsed > last_fr clip + first clip \<and> \<not> loop clip then Inr Hold
       else if first clip + elapsed \<ge> last_fr clip + first clip \<and> loop clip
       then and_then
              (float_to_uint32 (fadd (uint32_to_float (first clip)) (fmul 0 (rate clip))))
              (\<lambda>f. Inr (Play 0 f
                     (if first clip + elapsed + 1 \<ge> last_fr clip + first clip
                      then first clip else first clip + elapsed + 1)
                     (fsub (fmul time (rate clip)) (of_int \<lfloor>fmul time (rate clip)\<rfloor>))))
       else Inr (Play (fadd time delta_time)
              (if first clip + elapsed \<ge> last_fr clip + first clip
               then last_fr clip else first clip + elapsed)
              (if first clip + elapsed + 1 \<ge> last_fr clip + first clip
               then first clip else first clip + elapsed + 1)
              (fsub (fmul time (rate clip)) (of_int \<lfloor>fmul time (rate clip)\<rfloor>))))"
  by (cases "float_to_uint32 (fmul time (rate clip))")
     (simp_all add: advance_def frame_span_def wrapped_frame_def Let_def)

text \<open>
  Claim C3. \<^verbatim>\<open>model_update\<close> is the playback step of the specification followed by
  the blend of the two frames it selects and the matrix composition, and in that step
  the hold test, the wrap and clamp test and the wrap of the next frame all compare
  with the sum \<open>last + first\<close> (in \<^verbatim>\<open>uint32_t\<close> arithmetic).
\<close>

theorem model_update_uses_frame_span:
  "model_update ml m delta_time
   = (let m0 = m\<lparr>mesh_list := update_meshes m (mesh_list m)\<rparr> in
      case current_anim m of
        None \<Rightarrow> Inr m0
      | Some k \<Rightarrow>
          and_then (anim_at m k) (\<lambda>clip.
          and_then (advance clip (current_time m) delta_time) (\<lambda>r.
            case r of
              Hold \<Rightarrow> Inr m0
            | Play t cur nxt w \<Rightarrow>
                and_then (frame_at m (uint cur)) (\<lambda>a.
                and_then (frame_at m (sint nxt)) (\<lambda>b.
                and_then (mix_pose ml (m0\<lparr>current_time := t, current_frame := cur\<rparr>) a b w)
                  (model_update_matrices ml))))))
     \<and> frame_span clip = last_fr clip + first clip
     \<and> advance clip time delta_time
       = and_then (float_to_uint32 (fmul time (rate clip))) (\<lambda>elapsed.
           if elapsed > last_fr clip + first clip \<and> \<not> loop clip then Inr Hold
           else if first clip + elapsed \<ge> last_fr clip + first clip \<and> loop clip
           then and_then
                  (float_to_uint32
                     (fadd (uint32_to_float (first clip)) (fmul 0 (rate clip))))
                  (\<lambda>f. Inr (Play 0 f
                         (if first clip + elapsed + 1 \<ge> last_fr clip + first clip
                          then first clip else first clip + elapsed + 1)
                         (fsub (fmul time (rate clip))
                            (of_int \<lfloor>fmul time (rate clip)\<rfloor>))))
           else Inr (Play (fadd time delta_time)
                  (if first clip + elapsed \<ge> last_fr clip + first clip
                   then last_fr clip else first clip + elapsed)
                  (if first clip + elapsed + 1 \<ge> last_fr clip + first clip
                   then first clip else first clip + elapsed + 1)
                  (fsub (fmul time (rate clip)) (of_int \<lfloor>fmul time (rate clip)\<rfloor>))))"
  using advance_unfolded [of clip time delta_time]
  by (simp add: model_update_advance frame_span_def)

lemma advance_once_past: "advance clip_once (29 / 2) (1 / 4) = Inr (Play (59 / 4) 10 5 (1 / 2))"
  by (simp add: advance_def clip_once_def frame_span_def float_to_uint32_def float_ops
        float32_fractions)

theorem model_update_uses_frame_span_witness:
  "\<exists>sk. model_update ref_mathlib (playing 1 (29 / 2) 5) (1 / 4)
         = Inr ((playing 1 (29 / 2) 5)
                  \<lparr>mesh_list := Node (Some mesh1) (Some (Node None None)),
                    current_time := 59 / 4, current_frame := 10,
                    pose := blend ref_mathlib 2 frame_a frame_b (1 / 2),
                    skeleton := sk\<rparr>)"
proof -
  let ?m = "(playing 1 (29 / 2) 5)
              \<lparr>mesh_list := Node (Some mesh1) (Some (Node None None)),
                current_time := 59 / 4, current_frame := 10\<rparr>"
  have eq: "model_update ref_mathlib (playing 1 (29 / 2) 5) (1 / 4)
        = and_then (mix_pose ref_mathlib ?m frame_a frame_b (1 / 2))
            (model_update_matrices ref_mathlib)"
    using model_update_uses_frame_span
            [of ref_mathlib "playing 1 (29 / 2) 5" "1 / 4" clip_once "29 / 2"]
    by (simp add: model0_anims model0_frames advance_once_past update_meshes_playing)
  have mix: "mix_pose ref_mathlib ?m frame_a frame_b (1 / 2)
             = Inr (?m\<lparr>pose := blend ref_mathlib 2 frame_a frame_b (1 / 2)\<rparr>)"
    using mix_pose_blend [of ?m frame_a frame_b ref_mathlib "1 / 2"]
    by (simp add: model0_lengths)
  have "\<exists>sk. length sk = length (skeleton (?m\<lparr>pose := blend ref_mathlib 2 frame_a frame_b (1 / 2)\<rparr>))
          \<and> model_update_matrices ref_mathlib
                (?m\<lparr>pose := blend ref_mathlib 2 frame_a frame_b (1 / 2)\<rparr>)
              = Inr (?m\<lparr>pose := blend ref_mathlib 2 frame_a frame_b (1 / 2), skeleton := sk\<rparr>)"
    using model_update_matrices_returns
            [of "?m\<lparr>pose := blend ref_mathlib 2 frame_a frame_b (1 / 2)\<rparr>" ref_mathlib]
    by (simp add: ancestor_first_model0 model0_lengths blend_def)
  then show ?thesis
    unfolding eq mix and_then_Inr by blast
qed

lemma uint_word_of_int_32:
  assumes "0 \<le> z" "z < 2 ^ 32"
  shows "uint (word_of_int z :: uint32_t) = z"
  using assms by (simp add: uint_word_of_int take_bit_int_eq_self)

lemma advance_hold:
  assumes "\<not> loop clip"
    and "\<lfloor>fmul time (rate clip)\<rfloor> < 2 ^ 32"
    and "uint (last_fr clip + first clip) < \<lfloor>fmul time (rate clip)\<rfloor>"
  shows "advance clip time delta_time = Inr Hold"
proof -
  let ?x = "fmul time (rate clip)"
  have fl: "0 \<le> \<lfloor>?x\<rfloor>"
    using assms(3) uint_ge_0 [of "last_fr clip + first clip"] by linarith
  then have "0 \<le> ?x" by simp
  then have conv: "float_to_uint32 ?x = Inr (word_of_int \<lfloor>?x\<rfloor>)"
    using assms(2) by (rule float_to_uint32_floor)
  have "last_fr clip + first clip < (word_of_int \<lfloor>?x\<rfloor> :: uint32_t)"
    using assms(3) fl assms(2) by (simp add: word_less_def uint_word_of_int_32)
  then show ?thesis
    using assms(1) by (simp add: advance_unfolded conv)
qed

text \<open>
  Claim C4, amended. The claim as stated fails when the position is \<open>2^32\<close> or more,
  where its conversion to \<^verbatim>\<open>uint32_t\<close>, which the hold test compares, is undefined,
  and when the float product is at the span while the exact product is above it (see
  the next theorem but one). What holds: for a non-looping active clip, when the
  integer part of the float product \<open>current_time * rate\<close> is above the frame span
  \<open>last + first\<close> and below \<open>2^32\<close>, \<^verbatim>\<open>model_update\<close> returns the model with only the
  meshes updated: time, frame, pose buffer and skeleton are unchanged.
\<close>

theorem model_update_holds_past_span:
  assumes "current_anim m = Some k" and "k < anims_len m"
    and "\<not> loop (anims m ! k)"
    and "\<lfloor>fmul (current_time m) (rate (anims m ! k))\<rfloor> < 2 ^ 32"
    and "uint (last_fr (anims m ! k) + first (anims m ! k))
           < \<lfloor>fmul (current_time m) (rate (anims m ! k))\<rfloor>"
  shows "model_update ml m delta_time = Inr (m\<lparr>mesh_list := update_meshes m (mesh_list m)\<rparr>)
         \<and> (\<exists>m'. model_update ml m delta_time = Inr m'
               \<and> current_time m' = current_time m \<and> current_frame m' = current_frame m
               \<and> pose m' = pose m \<and> skeleton m' = skeleton m)"
proof -
  have "anim_at m k = Inr (anims m ! k)"
    using assms(2) by (simp add: anim_at_def)
  moreover have "advance (anims m ! k) (current_time m) delta_time = Inr Hold"
    using assms(3-5) by (rule advance_hold)
  ultimately have "model_update ml m delta_time
                   = Inr (m\<lparr>mesh_list := update_meshes m (mesh_list m)\<rparr>)"
    using assms(1) by (simp add: model_update_advance)
  then show ?thesis by simp
qed

theorem model_update_holds_past_span_witness:
  "current_anim (playing 1 16 10) = Some 1 \<and> 1 < anims_len (playing 1 16 10)
   \<and> \<not> loop (anims (playing 1 16 10) ! 1)
   \<and> \<lfloor>fmul (current_time (playing 1 16 10)) (rate (anims (playing 1 16 10) ! 1))\<rfloor> < 2 ^ 32
   \<and> uint (last_fr (anims (playing 1 16 10) ! 1) + first (anims (playing 1 16 10) ! 1))
       < \<lfloor>fmul (current_time (playing 1 16 10)) (rate (anims (playing 1 16 10) ! 1))\<rfloor>
   \<and> model_update ref_mathlib (playing 1 16 10) (1 / 4)
       = Inr ((playing 1 16 10)\<lparr>mesh_list := Node (Some mesh1) (Some (Node None None))\<rparr>)"
proof -
  have h1: "current_anim (playing 1 16 10) = Some 1" by simp
  have h2: "1 < anims_len (playing 1 16 10)"
    by (simp add: playing_def model0_def anims_len_def)
  have h3: "\<not> loop (anims (playing 1 16 10) ! 1)"
    by (simp add: playing_def model0_def clip_once_def)
  have h4: "\<lfloor>fmul (current_time (playing 1 16 10)) (rate (anims (playing 1 16 10) ! 1))\<rfloor>
            < 2 ^ 32"
    by (simp add: playing_def model0_def clip_once_def float_ops float32_values)
  have h5: "uint (last_fr (anims (playing 1 16 10) ! 1) + first (anims (playing 1 16 10) ! 1))
            < \<lfloor>fmul (current_time (playing 1 16 10)) (rate (anims (playing 1 16 10) ! 1))\<rfloor>"
    by (simp add: playing_def model0_def clip_once_def float_ops float32_values)
  have "model_update ref_mathlib (playing 1 16 10) (1 / 4)
        = Inr ((playing 1 16 10)\<lparr>mesh_list := Node (Some mesh1) (Some (Node None None))\<rparr>)"
    using model_update_holds_past_span [OF h1 h2 h3 h4 h5, of ref_mathlib "1 / 4"]
    by (simp only: update_meshes_playing)
  with h1 h2 h3 h4 h5 show ?thesis by blast
qed

text \<open>
  Claim C4 as stated, refuted, at two inputs. The small model plays its non-looping clip
  (span 15) at time \<open>2^32\<close>, rate 1: the integer part of the position, \<open>2^32\<close>, exceeds
  the span, but it is not a \<^verbatim>\<open>uint32_t\<close>, so the conversion at the head of the advance
  is undefined and the advance does not return the model unchanged. And \<open>model_long\<close>
  plays a non-looping clip of span \<open>2^24\<close> at time 24929, rate 673: the integer part of
  \<open>current_time * rate\<close> is \<open>2^24 + 1\<close>, above the span, but the code compares the float
  product, which is \<open>2^24\<close>, so it plays on and moves \<open>current_time\<close> to 24929.25.
\<close>

theorem model_update_not_held_past_span:
  "\<not> loop clip_once \<and> anim_at (playing 1 4294967296 10) 1 = Inr clip_once
   \<and> uint (last_fr clip_once + first clip_once)
       < \<lfloor>current_time (playing 1 4294967296 10) * rate clip_once\<rfloor>
   \<and> model_update ref_mathlib (playing 1 4294967296 10) (1 / 4)
       = Inl Float_conversion_undefined
   \<and> \<not> loop clip_long \<and> anim_at model_long 0 = Inr clip_long
   \<and> uint (last_fr clip_long + first clip_long)
       < \<lfloor>current_time model_long * rate clip_long\<rfloor>
   \<and> current_time model_long = 24929
   \<and> map_sum id current_time (model_update ref_mathlib model_long (1 / 4))
       = Inr (99717 / 4)"
proof -
  have "advance clip_once 4294967296 (1 / 4) = Inl Float_conversion_undefined"
    by (simp add: advance_def clip_once_def float_to_uint32_def float_ops float32_values)
  then have undefined: "model_update ref_mathlib (playing 1 4294967296 10) (1 / 4)
                        = Inl Float_conversion_undefined"
    by (simp add: model_update_advance model0_anims)
  have once: "\<not> loop clip_once" "anim_at (playing 1 4294967296 10) 1 = Inr clip_once"
    "uint (last_fr clip_once + first clip_once)
     < \<lfloor>current_time (playing 1 4294967296 10) * rate clip_once\<rfloor>"
    by (simp_all add: model0_anims) (simp_all add: clip_once_def)
  have at: "anim_at model_long 0 = Inr clip_long"
    by (simp add: anim_at_def anims_len_def model_long_def)
  have adv: "advance clip_long (current_time model_long) (1 / 4)
             = Inr (Play (99717 / 4) 16777216 0 0)"
    by (simp add: advance_def frame_span_def Let_def model_long_def clip_long_def
          float_to_uint32_def float_ops float32_round_16777217 float32_values
          float32_fractions)
  have fr: "frame_at model_long (uint (16777216 :: uint32_t)) = Inr frame_a"
    "frame_at model_long (sint (0 :: uint32_t)) = Inr frame_a"
    by (simp_all add: frame_at_def frames_len_def model_long_def)
  have wf: "ancestor_first (bones model_long)" "length (pose model_long) = bones_len model_long"
    "length (inverse_base model_long) = bones_len model_long"
    "length (skeleton model_long) = bones_len model_long"
    "bones_len model_long \<le> length frame_a"
    using ancestor_first_model0 model0_lengths
    by (simp_all add: model_long_def bones_len_def)
  obtain sk where
    "model_update ref_mathlib model_long (1 / 4)
     = Inr (model_long\<lparr>mesh_list := update_meshes model_long (mesh_list model_long),
              current_time := 99717 / 4, current_frame := 16777216,
              pose := blend ref_mathlib (bones_len model_long) frame_a frame_a 0,
              skeleton := sk\<rparr>)"
    using model_update_play [OF _ at adv fr wf(1-5) wf(5), of ref_mathlib]
    by (auto simp: model_long_def)
  then have played: "map_sum id current_time (model_update ref_mathlib model_long (1 / 4))
                     = Inr (99717 / 4)"
    by simp
  have long: "\<not> loop clip_long" "current_time model_long = 24929"
    "uint (last_fr clip_long + first clip_long)
     < \<lfloor>current_time model_long * rate clip_long\<rfloor>"
    by (simp_all add: model_long_def clip_long_def)
  show ?thesis
    using undefined once at played long by simp
qed

text \<open>
  Claim C5, amended. The claim as stated fails for a looping clip whose first frame is
  not a float (see the next theorem but one): the frame recomputed at the wrap is
  \<open>first + 0 * rate\<close> in float arithmetic, which rounds the first frame. What holds:
  let an advance with an active clip return, with \<open>elapsed\<close> the truncated frame
  position, and let it reach the frame-bounds check (the clip loops, or \<open>elapsed\<close> is
  not above the span) with \<open>first + elapsed\<close> at or above the span. If the clip loops,
  the advance ends with \<open>current_time = 0\<close> and with \<open>current_frame\<close> the conversion of
  the float \<open>first + 0 * rate\<close>, which is \<open>first\<close> for every first frame up to \<open>2^24\<close>;
  if the clip does not loop, it ends with \<open>current_frame = last\<close>.
\<close>

theorem model_update_wraps_or_clamps:
  assumes run: "model_update ml m delta_time = Inr m'"
    and anim: "current_anim m = Some k" "k < anims_len m"
    and conv: "float_to_uint32 (fmul (current_time m) (rate (anims m ! k))) = Inr elapsed"
    and reached: "last_fr (anims m ! k) + first (anims m ! k) \<le> first (anims m ! k) + elapsed"
    and not_held: "loop (anims m ! k) \<or> elapsed \<le> last_fr (anims m ! k) + first (anims m ! k)"
  shows "(loop (anims m ! k) \<longrightarrow>
            current_time m' = 0
            \<and> float_to_uint32 (fadd (uint32_to_float (first (anims m ! k)))
                                 (fmul 0 (rate (anims m ! k))))
              = Inr (current_frame m')
            \<and> (unat (first (anims m ! k)) \<le> 2 ^ 24
               \<longrightarrow> current_frame m' = first (anims m ! k)))
         \<and> (\<not> loop (anims m ! k) \<longrightarrow> current_frame m' = last_fr (anims m ! k))"
proof -
  let ?clip = "anims m ! k"
  have at: "anim_at m k = Inr ?clip"
    using anim(2) by (simp add: anim_at_def)
  from run anim(1) at obtain r where adv: "advance ?clip (current_time m) delta_time = Inr r"
    by (auto simp: model_update_advance and_then_eq_Inr Let_def)
  show ?thesis
  proof (cases "loop ?clip")
    case True
    with adv conv reached obtain f nxt w
      where f: "wrapped_frame ?clip = Inr f" and r: "r = Play 0 f nxt w"
      by (auto simp: advance_unfolded wrapped_frame_def and_then_eq_Inr)
    from model_update_play_result [OF run anim(1) at adv [unfolded r]]
    have res: "current_time m' = 0" "current_frame m' = f" by simp_all
    have "unat (first ?clip) \<le> 2 ^ 24 \<longrightarrow> f = first ?clip"
      using f wrapped_frame_small [of ?clip] by auto
    with True res f show ?thesis
      by (simp add: wrapped_frame_def)
  next
    case False
    then have "advance ?clip (current_time m) delta_time
               = Inr (Play (fadd (current_time m) delta_time) (last_fr ?clip)
                        (if first ?clip + elapsed + 1 \<ge> last_fr ?clip + first ?clip
                         then first ?clip else first ?clip + elapsed + 1)
                        (fsub (fmul (current_time m) (rate ?clip))
                           (of_int \<lfloor>fmul (current_time m) (rate ?clip)\<rfloor>)))"
      using conv reached not_held by (simp add: advance_unfolded)
    from model_update_play_result [OF run anim(1) at this] False show ?thesis by simp
  qed
qed

lemma advance_loop_wrap: "advance clip_loop (7 / 2) (1 / 4) = Inr (Play 0 0 0 (1 / 2))"
  by (simp add: advance_def clip_loop_def frame_span_def wrapped_frame_def float_to_uint32_def
        float_ops float32_fractions)

lemma advance_once_clamp: "advance clip_once 12 (1 / 4) = Inr (Play (49 / 4) 10 5 0)"
  by (simp add: advance_def clip_once_def frame_span_def float_to_uint32_def float_ops
        float32_values float32_fractions)

theorem model_update_wraps_or_clamps_witness:
  "(\<exists>m'. model_update ref_mathlib (playing 0 (7 / 2) 3) (1 / 4) = Inr m'
         \<and> current_time m' = 0 \<and> current_frame m' = 0)
   \<and> (\<exists>m'. model_update ref_mathlib (playing 1 12 5) (1 / 4) = Inr m'
         \<and> current_frame m' = 10)"
proof (intro conjI)
  obtain m' where run: "model_update ref_mathlib (playing 0 (7 / 2) 3) (1 / 4) = Inr m'"
    using model_update_play
            [of "playing 0 (7 / 2) 3" 0 clip_loop "1 / 4" 0 0 0 "1 / 2" frame_a frame_a ref_mathlib]
    by (auto simp: model0_anims model0_frames advance_loop_wrap ancestor_first_model0
          model0_lengths)
  have clip: "anims (playing 0 (7 / 2) 3) ! 0 = clip_loop"
    by (simp add: playing_def model0_def)
  have "(loop (anims (playing 0 (7 / 2) 3) ! 0) \<longrightarrow>
           current_time m' = 0
           \<and> float_to_uint32 (fadd (uint32_to_float (first (anims (playing 0 (7 / 2) 3) ! 0)))
                                (fmul 0 (rate (anims (playing 0 (7 / 2) 3) ! 0))))
             = Inr (current_frame m')
           \<and> (unat (first (anims (playing 0 (7 / 2) 3) ! 0)) \<le> 2 ^ 24
              \<longrightarrow> current_frame m' = first (anims (playing 0 (7 / 2) 3) ! 0)))
        \<and> (\<not> loop (anims (playing 0 (7 / 2) 3) ! 0) \<longrightarrow>
           current_frame m' = last_fr (anims (playing 0 (7 / 2) 3) ! 0))"
  proof (rule model_update_wraps_or_clamps [OF run, where elapsed = 3])
    show "current_anim (playing 0 (7 / 2) 3) = Some 0" by simp
    show "0 < anims_len (playing 0 (7 / 2) 3)"
      by (simp add: playing_def model0_def anims_len_def)
    show "float_to_uint32 (fmul (current_time (playing 0 (7 / 2) 3))
            (rate (anims (playing 0 (7 / 2) 3) ! 0))) = Inr 3"
      by (simp add: clip clip_loop_def float_to_uint32_def float_ops float32_fractions)
    show "last_fr (anims (playing 0 (7 / 2) 3) ! 0) + first (anims (playing 0 (7 / 2) 3) ! 0)
          \<le> first (anims (playing 0 (7 / 2) 3) ! 0) + 3"
      by (simp add: clip clip_loop_def)
    show "loop (anims (playing 0 (7 / 2) 3) ! 0)
          \<or> 3 \<le> last_fr (anims (playing 0 (7 / 2) 3) ! 0)
                 + first (anims (playing 0 (7 / 2) 3) ! 0)"
      by (simp add: clip clip_loop_def)
  qed
  then have "current_time m' = 0 \<and> current_frame m' = 0"
    by (simp add: clip clip_loop_def)
  with run show "\<exists>m'. model_update ref_mathlib (playing 0 (7 / 2) 3) (1 / 4) = Inr m'
                      \<and> current_time m' = 0 \<and> current_frame m' = 0"
    by blast
next
  obtain m' where run: "model_update ref_mathlib (playing 1 12 5) (1 / 4) = Inr m'"
    using model_update_play
            [of "playing 1 12 5" 1 clip_once "1 / 4" "49 / 4" 10 5 0 frame_a frame_b ref_mathlib]
    by (auto simp: model0_anims model0_frames advance_once_clamp ancestor_first_model0
          model0_lengths)
  have clip: "anims (playing 1 12 5) ! 1 = clip_once"
    by (simp add: playing_def model0_def)
  have "(loop (anims (playing 1 12 5) ! 1) \<longrightarrow>
           current_time m' = 0
           \<and> float_to_uint32 (fadd (uint32_to_float (first (anims (playing 1 12 5) ! 1)))
                                (fmul 0 (rate (anims (playing 1 12 5) ! 1))))
             = Inr (current_frame m')
           \<and> (unat (first (anims (playing 1 12 5) ! 1)) \<le> 2 ^ 24
              \<longrightarrow> current_frame m' = first (anims (playing 1 12 5) ! 1)))
        \<and> (\<not> loop (anims (playing 1 12 5) ! 1) \<longrightarrow>
           current_frame m' = last_fr (anims (playing 1 12 5) ! 1))"
  proof (rule model_update_wraps_or_clamps [OF run, where elapsed = 12])
    show "current_anim (playing 1 12 5) = Some 1" by simp
    show "1 < anims_len (playing 1 12 5)"
      by (simp add: playing_def model0_def anims_len_def)
    show "float_to_uint32 (fmul (current_time (playing 1 12 5))
            (rate (anims (playing 1 12 5) ! 1))) = Inr 12"
      unfolding clip
      by (simp add: clip_once_def float_to_uint32_def float_ops float32_values)
    show "last_fr (anims (playing 1 12 5) ! 1) + first (anims (playing 1 12 5) ! 1)
          \<le> first (anims (playing 1 12 5) ! 1) + 12"
      unfolding clip by (simp add: clip_once_def)
    show "loop (anims (playing 1 12 5) ! 1)
          \<or> 12 \<le> last_fr (anims (playing 1 12 5) ! 1) + first (anims (playing 1 12 5) ! 1)"
      unfolding clip by (simp add: clip_once_def)
  qed
  then have "current_frame m' = 10"
    unfolding clip by (simp add: clip_once_def)
  with run show "\<exists>m'. model_update ref_mathlib (playing 1 12 5) (1 / 4) = Inr m'
                      \<and> current_frame m' = 10"
    by blast
qed

text \<open>
  Claim C5 as stated, refuted. \<open>model_far\<close> plays a looping clip whose first frame is
  16777217, at position 16777220: the current frame \<open>first + 16777220\<close> is at the span
  \<open>last + first\<close>, the clip wraps, and the frame recomputed from the reset time is the
  conversion of the float nearest to 16777217, which is 16777216, not the first frame.
\<close>

theorem model_update_wrap_rounds_first:
  "loop clip_far \<and> first clip_far = 16777217
   \<and> anim_at model_far 0 = Inr clip_far
   \<and> float_to_uint32 (fmul (current_time model_far) (rate clip_far)) = Inr 16777220
   \<and> last_fr clip_far + first clip_far \<le> first clip_far + 16777220
   \<and> map_sum id current_time (model_update ref_mathlib model_far (1 / 4)) = Inr 0
   \<and> map_sum id current_frame (model_update ref_mathlib model_far (1 / 4))
       = Inr 16777216"
proof -
  have at: "anim_at model_far 0 = Inr clip_far"
    by (simp add: anim_at_def anims_len_def model_far_def)
  have conv: "float_to_uint32 (fmul (current_time model_far) (rate clip_far)) = Inr 16777220"
    by (simp add: model_far_def clip_far_def float_to_uint32_def float_ops float32_values)
  have wrapped: "wrapped_frame clip_far = Inr 16777216"
    by (simp add: wrapped_frame_def clip_far_def float_to_uint32_def float_ops
          float32_round_16777217 float32_values)
  have adv: "advance clip_far (current_time model_far) (1 / 4)
             = Inr (Play 0 16777216 16777217 0)"
    using conv wrapped
    by (simp add: advance_def frame_span_def Let_def)
       (simp add: model_far_def clip_far_def float_ops float32_values)
  have fr: "frame_at model_far (uint (16777216 :: uint32_t)) = Inr frame_a"
    "frame_at model_far (sint (16777217 :: uint32_t)) = Inr frame_a"
    by (simp_all add: frame_at_def frames_len_def model_far_def)
  have wf: "ancestor_first (bones model_far)" "length (pose model_far) = bones_len model_far"
    "length (inverse_base model_far) = bones_len model_far"
    "length (skeleton model_far) = bones_len model_far"
    "bones_len model_far \<le> length frame_a"
    using ancestor_first_model0 model0_lengths
    by (simp_all add: model_far_def bones_len_def)
  obtain sk where
    "model_update ref_mathlib model_far (1 / 4)
     = Inr (model_far\<lparr>mesh_list := update_meshes model_far (mesh_list model_far),
              current_time := 0, current_frame := 16777216,
              pose := blend ref_mathlib (bones_len model_far) frame_a frame_a 0,
              skeleton := sk\<rparr>)"
    using model_update_play [OF _ at adv fr wf(1-5) wf(5), of ref_mathlib]
    by (auto simp: model_far_def)
  then have "map_sum id current_time (model_update ref_mathlib model_far (1 / 4)) = Inr 0"
    "map_sum id current_frame (model_update ref_mathlib model_far (1 / 4))
     = Inr 16777216"
    by simp_all
  moreover have "last_fr clip_far + first clip_far \<le> first clip_far + 16777220"
    "loop clip_far" "first clip_far = 16777217"
    by (simp_all add: clip_far_def)
  ultimately show ?thesis
    using at conv by simp
qed

section \<open>Clips that start at frame 0\<close>

text \<open>For a clip that starts at frame 0 the bound \<open>last + first\<close> is \<open>last\<close>, and a
  tick keeps a frame that was in the clip's range in it.\<close>

lemma model_update_frame_in_range_from_0:
  assumes run: "model_update ml m delta_time = Inr m'"
    and anim: "current_anim m = Some k" "k < anims_len m"
    and zero: "first (anims m ! k) = 0"
    and before: "current_frame m \<le> last_fr (anims m ! k)"
  shows "first (anims m ! k) \<le> current_frame m' \<and> current_frame m' \<le> last_fr (anims m ! k)"
proof -
  let ?clip = "anims m ! k"
  have at: "anim_at m k = Inr ?clip"
    using anim(2) by (simp add: anim_at_def)
  from run anim(1) at obtain r where adv: "advance ?clip (current_time m) delta_time = Inr r"
    by (auto simp: model_update_advance and_then_eq_Inr Let_def)
  have wrapped: "wrapped_frame ?clip = Inr 0"
    using wrapped_frame_small [of ?clip] zero by simp
  show ?thesis
  proof (cases r)
    case Hold
    with run anim(1) at adv have "m' = m\<lparr>mesh_list := update_meshes m (mesh_list m)\<rparr>"
      by (simp add: model_update_advance)
    with before zero show ?thesis by simp
  next
    case (Play t cur nxt w)
    with adv have "cur \<le> last_fr ?clip"
      using zero wrapped
      by (auto simp: advance_def frame_span_def Let_def and_then_eq_Inr split: if_splits)
    moreover have "current_frame m' = cur"
      using model_update_play_result [OF run anim(1) at adv [unfolded Play]] by simp
    ultimately show ?thesis using zero by simp
  qed
qed

end
